theory Spec2Isabelle
  imports Complex_Main
begin

section \<open>JavaScript numbers\<close>

text \<open>
  A JavaScript number is modelled as an exact rational or one of the three non-finite
  values. Rounding of IEEE doubles is not modelled: finite arithmetic is exact. The
  sign of zero is not modelled either; every divisor of the program is a difference or an
  element size, hence never the negative zero.
\<close>

datatype jsnum = Fin rat | PInf | NInf | NaN

fun jsneg :: "jsnum \<Rightarrow> jsnum" where
  "jsneg (Fin a) = Fin (- a)"
| "jsneg PInf = NInf"
| "jsneg NInf = PInf"
| "jsneg NaN = NaN"

fun jssub :: "jsnum \<Rightarrow> jsnum \<Rightarrow> jsnum" where
  "jssub (Fin a) (Fin b) = Fin (a - b)"
| "jssub NaN _ = NaN"
| "jssub _ NaN = NaN"
| "jssub PInf PInf = NaN"
| "jssub NInf NInf = NaN"
| "jssub PInf _ = PInf"
| "jssub NInf _ = NInf"
| "jssub (Fin a) PInf = NInf"
| "jssub (Fin a) NInf = PInf"

definition jssign :: "jsnum \<Rightarrow> int" where
  "jssign x = (case x of Fin a \<Rightarrow> (if a = 0 then 0 else if 0 < a then 1 else - 1)
     | PInf \<Rightarrow> 1 | NInf \<Rightarrow> - 1 | NaN \<Rightarrow> 0)"

definition jsinf :: "int \<Rightarrow> jsnum" where
  "jsinf sg = (if sg = 0 then NaN else if 0 < sg then PInf else NInf)"

fun jsmul :: "jsnum \<Rightarrow> jsnum \<Rightarrow> jsnum" where
  "jsmul (Fin a) (Fin b) = Fin (a * b)"
| "jsmul NaN _ = NaN"
| "jsmul _ NaN = NaN"
| "jsmul x y = jsinf (jssign x * jssign y)"

fun jsdiv :: "jsnum \<Rightarrow> jsnum \<Rightarrow> jsnum" where
  "jsdiv (Fin a) (Fin b) = (if b = 0 then jsinf (jssign (Fin a)) else Fin (a / b))"
| "jsdiv NaN _ = NaN"
| "jsdiv _ NaN = NaN"
| "jsdiv (Fin a) _ = Fin 0"
| "jsdiv x (Fin b) = jsinf (jssign x * (if b < 0 then - 1 else 1))"
| "jsdiv _ _ = NaN"

definition trunc :: "rat \<Rightarrow> int" where
  "trunc x = (if 0 \<le> x then \<lfloor>x\<rfloor> else \<lceil>x\<rceil>)"

definition wrap32 :: "int \<Rightarrow> int" where
  "wrap32 n = (n + 2 ^ 31) mod 2 ^ 32 - 2 ^ 31"

text \<open>The double bitwise negation \<^verbatim>\<open>~~x\<close>: ToInt32, which sends every non-finite value to 0.\<close>

definition toInt32 :: "jsnum \<Rightarrow> int" where
  "toInt32 x = (case x of Fin a \<Rightarrow> wrap32 (trunc a) | _ \<Rightarrow> 0)"

subsection \<open>parseInt with radix 10\<close>

definition isWhiteSpace :: "char \<Rightarrow> bool" where
  "isWhiteSpace c = (c \<in> set [CHR '' '', CHR 0x09, CHR 0x0A, CHR 0x0B, CHR 0x0C, CHR 0x0D])"

definition digitValue :: "char \<Rightarrow> int option" where
  "digitValue c = map_of [(CHR ''0'', 0), (CHR ''1'', 1), (CHR ''2'', 2), (CHR ''3'', 3),
     (CHR ''4'', 4), (CHR ''5'', 5), (CHR ''6'', 6), (CHR ''7'', 7), (CHR ''8'', 8),
     (CHR ''9'', 9)] c"

fun leadingDigits :: "string \<Rightarrow> int list" where
  "leadingDigits [] = []"
| "leadingDigits (c # cs) = (case digitValue c of None \<Rightarrow> [] | Some d \<Rightarrow> d # leadingDigits cs)"

definition parseInt :: "string \<Rightarrow> jsnum" where
  "parseInt str =
     (let t = dropWhile isWhiteSpace str;
          neg = (t \<noteq> [] \<and> hd t = CHR ''-'');
          body = (if t \<noteq> [] \<and> (hd t = CHR ''-'' \<or> hd t = CHR ''+'') then tl t else t);
          ds = leadingDigits body
      in if ds = [] then NaN
         else Fin (of_int ((if neg then - 1 else 1) * foldl (\<lambda>acc d. 10 * acc + d) 0 ds)))"


section \<open>Data model\<close>

datatype axis = X | Y

text \<open>
  An inline style value: \<open>Px n\<close> stands for the template string of the number \<open>n\<close>
  followed by \<^verbatim>\<open>px\<close>, \<open>Str\<close> for any other string.
\<close>

datatype css = Px rat | Str string

text \<open>The part of a DOM element the widget writes: inline styles, class list, scroll offsets.\<close>

record elem =
  style_width :: "css option"
  style_height :: "css option"
  style_left :: "css option"
  style_top :: "css option"
  style_display :: "css option"
  style_visibility :: "css option"
  style_overflowX :: "css option"
  style_overflowY :: "css option"
  classList :: "string list"
  scrollLeft :: "jsnum option"
  scrollTop :: "jsnum option"

record rect =
  rect_left :: rat
  rect_top :: rat
  rect_width :: rat
  rect_height :: rat

record RtlHelpers =
  isScrollOriginAtZero :: bool
  isScrollingToNegative :: bool

text \<open>
  The DOM read surface at the moment a handler runs: what the layout engine reports for
  computed styles, element sizes, scroll offsets and bounding rectangles, and what the
  dummy element of \<^verbatim>\<open>getRtlHelpers\<close> measures. The engine derives these from the whole
  document; the widget only reads them.
\<close>

record layout =
  cs_direction :: string
  cs_overflowX :: string
  cs_overflowY :: string
  cs_width :: string
  cs_height :: string
  content_offsetWidth :: int
  content_scrollWidth :: int
  content_scrollHeight :: int
  observer_offsetHeight :: int
  observer_offsetWidth :: int
  cw_offsetWidth :: int
  cw_offsetHeight :: int
  cw_scrollWidth :: int
  cw_scrollHeight :: int
  cw_scrollLeft :: rat
  cw_scrollTop :: rat
  trackX_offsetWidth :: int
  trackY_offsetHeight :: int
  trackX_rect :: rect
  trackY_rect :: rect
  scrollbarX_rect :: rect
  scrollbarY_rect :: rect
  rtlProbe :: "RtlHelpers option"

datatype forceVisibleOption = ForceBool bool | ForceAxis axis

record Options =
  opt_forceVisible :: forceVisibleOption
  scrollbarMinSize :: rat
  scrollbarMaxSize :: rat
  autoHide :: bool

record ClassNames =
  cn_visible :: string
  cn_dragging :: string
  cn_scrollable :: string

text \<open>
  \<^verbatim>\<open>track\<close> and \<^verbatim>\<open>scrollbar\<close> of an axis. \<open>part_size\<close> starts as \<^verbatim>\<open>null\<close>, which
  arithmetic reads as 0, so it is a number that starts at 0.
\<close>

record part =
  part_size :: rat
  part_el :: "elem option"
  part_rect :: "rect option"
  part_isVisible :: bool

record AxisProps =
  dragOffset :: rat
  isOverflowing :: bool
  forceVisible :: bool
  track :: part
  scrollbar :: part

datatype callback = ScrollX | ScrollY | Recalculate

text \<open>
  The instance, the static cache \<open>static_rtlHelpers\<close>, and what the instance has
  registered with the host: \<open>raf\<close> are the callbacks passed to
  \<^verbatim>\<open>requestAnimationFrame\<close> and not yet run, \<open>stopScrollingPending\<close> and
  \<open>mouseEnteredPending\<close> the armed debounce timers, \<open>dragListeners\<close> the document's
  \<^verbatim>\<open>mousemove\<close>/\<^verbatim>\<open>mouseup\<close> listeners and \<open>clickListeners\<close> its
  \<^verbatim>\<open>click\<close>/\<^verbatim>\<open>dblclick\<close> suppressors. \<open>elStyles\<close> is True once the live computed
  style declaration has been stored (its properties are read from the current layout);
  \<open>isRtl\<close> starts as \<^verbatim>\<open>null\<close>, which every use reads as false;
  \<open>removePreventClickId\<close> is True when a timer id is stored.
\<close>

record state =
  el :: elem
  options :: Options
  classNames :: ClassNames
  axis_x :: AxisProps
  axis_y :: AxisProps
  draggedAxis :: "axis option"
  removePreventClickId :: bool
  isScrolling :: bool
  isMouseEntering :: bool
  isDragging :: bool
  scrollXTicking :: bool
  scrollYTicking :: bool
  wrapperEl :: "elem option"
  contentWrapperEl :: "elem option"
  contentEl :: "elem option"
  placeholderEl :: "elem option"
  heightAutoObserverEl :: "elem option"
  rtlHelpers :: "RtlHelpers option"
  scrollbarWidth :: int
  elStyles :: bool
  isRtl :: bool
  mouseX :: rat
  mouseY :: rat
  static_rtlHelpers :: "RtlHelpers option"
  raf :: "callback list"
  stopScrollingPending :: bool
  mouseEnteredPending :: bool
  dragListeners :: bool
  clickListeners :: bool

definition ax :: "axis \<Rightarrow> state \<Rightarrow> AxisProps" where
  "ax a s = (case a of X \<Rightarrow> axis_x s | Y \<Rightarrow> axis_y s)"

definition ax_map :: "axis \<Rightarrow> (AxisProps \<Rightarrow> AxisProps) \<Rightarrow> state \<Rightarrow> state" where
  "ax_map a f s = (case a of X \<Rightarrow> s\<lparr>axis_x := f (axis_x s)\<rparr> | Y \<Rightarrow> s\<lparr>axis_y := f (axis_y s)\<rparr>)"

subsection \<open>The attribute bindings of an axis\<close>

definition content_scrollSize :: "axis \<Rightarrow> layout \<Rightarrow> int" where
  "content_scrollSize a g = (case a of X \<Rightarrow> content_scrollWidth g | Y \<Rightarrow> content_scrollHeight g)"

definition cw_scrollSize :: "axis \<Rightarrow> layout \<Rightarrow> int" where
  "cw_scrollSize a g = (case a of X \<Rightarrow> cw_scrollWidth g | Y \<Rightarrow> cw_scrollHeight g)"

definition cw_scrollOffset :: "axis \<Rightarrow> layout \<Rightarrow> rat" where
  "cw_scrollOffset a g = (case a of X \<Rightarrow> cw_scrollLeft g | Y \<Rightarrow> cw_scrollTop g)"

definition track_offsetSize :: "axis \<Rightarrow> layout \<Rightarrow> int" where
  "track_offsetSize a g = (case a of X \<Rightarrow> trackX_offsetWidth g | Y \<Rightarrow> trackY_offsetHeight g)"

definition cs_size :: "axis \<Rightarrow> layout \<Rightarrow> string" where
  "cs_size a g = (case a of X \<Rightarrow> cs_width g | Y \<Rightarrow> cs_height g)"

definition rect_offset :: "axis \<Rightarrow> rect \<Rightarrow> rat" where
  "rect_offset a r = (case a of X \<Rightarrow> rect_left r | Y \<Rightarrow> rect_top r)"

definition rect_size :: "axis \<Rightarrow> rect \<Rightarrow> rat" where
  "rect_size a r = (case a of X \<Rightarrow> rect_width r | Y \<Rightarrow> rect_height r)"

definition track_rect :: "axis \<Rightarrow> layout \<Rightarrow> rect" where
  "track_rect a g = (case a of X \<Rightarrow> trackX_rect g | Y \<Rightarrow> trackY_rect g)"

definition scrollbar_rect :: "axis \<Rightarrow> layout \<Rightarrow> rect" where
  "scrollbar_rect a g = (case a of X \<Rightarrow> scrollbarX_rect g | Y \<Rightarrow> scrollbarY_rect g)"

section \<open>The RTL profile\<close>

text \<open>
  \<^verbatim>\<open>getRtlHelpers\<close>: the cached profile when there is one, otherwise the probe's result,
  which is cached (a probe that finds no dummy child returns \<^verbatim>\<open>null\<close> and caches nothing).
\<close>

definition getRtlHelpers :: "layout \<Rightarrow> state \<Rightarrow> RtlHelpers option \<times> state" where
  "getRtlHelpers g s =
     (case static_rtlHelpers s of
        Some r \<Rightarrow> (Some r, s)
      | None \<Rightarrow> (rtlProbe g, s\<lparr>static_rtlHelpers := rtlProbe g\<rparr>))"

text \<open>Optional chaining on the profile: a missing profile reads as false.\<close>

definition originAtZero :: "RtlHelpers option \<Rightarrow> bool" where
  "originAtZero h = (case h of None \<Rightarrow> False | Some r \<Rightarrow> isScrollOriginAtZero r)"

definition toNegative :: "RtlHelpers option \<Rightarrow> bool" where
  "toNegative h = (case h of None \<Rightarrow> False | Some r \<Rightarrow> isScrollingToNegative r)"

section \<open>Handle size\<close>

definition trackSizeOf :: "axis \<Rightarrow> layout \<Rightarrow> state \<Rightarrow> int" where
  "trackSizeOf a g s = (case part_el (track (ax a s)) of None \<Rightarrow> 0 | Some _ \<Rightarrow> track_offsetSize a g)"

definition getScrollbarSize :: "axis \<Rightarrow> layout \<Rightarrow> state \<Rightarrow> rat" where
  "getScrollbarSize a g s =
     (if \<not> isOverflowing (ax a s) \<or> contentEl s = None then 0
      else
        let contentSize = content_scrollSize a g;
            trackSize = trackSizeOf a g s;
            scrollbarRatio = jsdiv (Fin (of_int trackSize)) (Fin (of_int contentSize));
            scrollbarSize = max (of_int (toInt32 (jsmul scrollbarRatio (Fin (of_int trackSize)))))
                                (scrollbarMinSize (options s))
        in if scrollbarMaxSize (options s) \<noteq> 0
           then min scrollbarSize (scrollbarMaxSize (options s))
           else scrollbarSize)"


section \<open>Handle position\<close>

definition positionScrollbar :: "axis \<Rightarrow> layout \<Rightarrow> state \<Rightarrow> state" where
  "positionScrollbar a g s =
     (case part_el (scrollbar (ax a s)) of
        None \<Rightarrow> s
      | Some sbEl \<Rightarrow>
          if \<not> isOverflowing (ax a s) \<or> contentWrapperEl s = None \<or> \<not> elStyles s then s
          else
            let contentSize = cw_scrollSize a g;
                trackSize = trackSizeOf a g s;
                hostSize = parseInt (cs_size a g);
                sbSize = part_size (scrollbar (ax a s));
                scrollOffset0 = cw_scrollOffset a g;
                rtlX = (a = X \<and> isRtl s);
                (h1, s1) = (if rtlX then getRtlHelpers g s else (None, s));
                scrollOffset1 = (if rtlX \<and> originAtZero h1 then - scrollOffset0 else scrollOffset0);
                (h2, s2) = (if rtlX then getRtlHelpers g s1 else (None, s1));
                scrollOffset = (if rtlX then (if toNegative h2 then scrollOffset1 else - scrollOffset1)
                                else scrollOffset1);
                scrollPourcent = jsdiv (Fin scrollOffset) (jssub (Fin (of_int contentSize)) hostSize);
                handleOffset0 = of_int (toInt32 (jsmul (Fin (of_int trackSize - sbSize)) scrollPourcent));
                handleOffset = (if rtlX then - handleOffset0 + (of_int trackSize - sbSize)
                                else handleOffset0);
                sbEl' = (case a of
                           X \<Rightarrow> sbEl\<lparr>style_left := Some (Px handleOffset)\<rparr>
                         | Y \<Rightarrow> if handleOffset = 0 then sbEl\<lparr>style_top := Some (Px 2)\<rparr>
                                else sbEl\<lparr>style_top := Some (Px handleOffset)\<rparr>)
            in ax_map a (\<lambda>p. p\<lparr>scrollbar := (scrollbar p)\<lparr>part_el := Some sbEl'\<rparr>\<rparr>) s2)"

section \<open>Track visibility\<close>

definition classList_add :: "string \<Rightarrow> string list \<Rightarrow> string list" where
  "classList_add c cs = (if c \<in> set cs then cs else cs @ [c])"

definition classList_remove :: "string \<Rightarrow> string list \<Rightarrow> string list" where
  "classList_remove c cs = filter (\<lambda>d. d \<noteq> c) cs"

definition axisName :: "axis \<Rightarrow> string" where
  "axisName a = (case a of X \<Rightarrow> ''x'' | Y \<Rightarrow> ''y'')"

definition set_overflowAttr :: "axis \<Rightarrow> css \<Rightarrow> elem \<Rightarrow> elem" where
  "set_overflowAttr a v e = (case a of X \<Rightarrow> e\<lparr>style_overflowX := Some v\<rparr>
                                      | Y \<Rightarrow> e\<lparr>style_overflowY := Some v\<rparr>)"

definition toggleTrackVisibility :: "axis \<Rightarrow> state \<Rightarrow> state" where
  "toggleTrackVisibility a s =
     (case (part_el (track (ax a s)), part_el (scrollbar (ax a s)), contentWrapperEl s) of
        (Some tr, Some sb, Some cw) \<Rightarrow>
          let shown = (isOverflowing (ax a s) \<or> forceVisible (ax a s));
              cls = cn_scrollable (classNames s) @ ''-'' @ axisName a;
              tr' = tr\<lparr>style_visibility := Some (Str (if shown then ''visible'' else ''hidden''))\<rparr>;
              cw' = set_overflowAttr a (Str (if shown then ''scroll'' else ''hidden'')) cw;
              el' = (el s)\<lparr>classList := (if shown then classList_add cls (classList (el s))
                                           else classList_remove cls (classList (el s)))\<rparr>;
              sb' = sb\<lparr>style_display := Some (Str (if isOverflowing (ax a s) then ''block'' else ''none''))\<rparr>
          in ax_map a (\<lambda>p. p\<lparr>track := (track p)\<lparr>part_el := Some tr'\<rparr>,
                                scrollbar := (scrollbar p)\<lparr>part_el := Some sb'\<rparr>\<rparr>)
               (s\<lparr>contentWrapperEl := Some cw', el := el'\<rparr>)
      | _ \<Rightarrow> s)"

section \<open>Recalculation\<close>

definition set_scrollbar_size_style :: "axis \<Rightarrow> state \<Rightarrow> state" where
  "set_scrollbar_size_style a s =
     (case part_el (scrollbar (ax a s)) of
        None \<Rightarrow> s
      | Some sb \<Rightarrow>
          let v = Some (Px (part_size (scrollbar (ax a s))));
              sb' = (case a of X \<Rightarrow> sb\<lparr>style_width := v\<rparr> | Y \<Rightarrow> sb\<lparr>style_height := v\<rparr>)
          in ax_map a (\<lambda>p. p\<lparr>scrollbar := (scrollbar p)\<lparr>part_el := Some sb'\<rparr>\<rparr>) s)"

text \<open>
  \<^verbatim>\<open>recalculate\<close> is modelled in two parts. \<open>measureStep\<close> is its body from the reading
  of the computed style up to the assignment of the two handle sizes: what it measures
  and stores. \<open>recalculate\<close> is the guard at its head, \<open>measureStep\<close>, and the rest of
  the body: the writes of the handle sizes, the two calls of \<^verbatim>\<open>positionScrollbar\<close> and the
  two calls of \<^verbatim>\<open>toggleTrackVisibility\<close>.
\<close>

definition measureStep :: "layout \<Rightarrow> state \<Rightarrow> state" where
  "measureStep g s =
     (let s1 = s\<lparr>elStyles := True, isRtl := (cs_direction g = ''rtl'')\<rparr>;
          contentElOffsetWidth = content_offsetWidth g;
          isHeightAuto = (observer_offsetHeight g \<le> 1);
          isWidthAuto = (observer_offsetWidth g \<le> 1 \<or> contentElOffsetWidth > 0);
          contentWrapperElOffsetWidth = cw_offsetWidth g;
          elOverflowX = cs_overflowX g;
          elOverflowY = cs_overflowY g;
          contentElScrollHeight = content_scrollHeight g;
          contentElScrollWidth = content_scrollWidth g;
          s2 = s1\<lparr>contentWrapperEl := map_option
                 (\<lambda>e. e\<lparr>style_height := Some (Str (if isHeightAuto then ''auto'' else ''100%''))\<rparr>)
                 (contentWrapperEl s1)\<rparr>;
          s3 = s2\<lparr>placeholderEl := map_option
                 (\<lambda>e. e\<lparr>style_width := Some (if isWidthAuto
                            then Px (of_int (if contentElOffsetWidth \<noteq> 0 then contentElOffsetWidth
                                             else contentElScrollWidth))
                            else Str ''auto''),
                         style_height := Some (Px (of_int contentElScrollHeight))\<rparr>)
                 (placeholderEl s2)\<rparr>;
          contentWrapperElOffsetHeight = cw_offsetHeight g;
          ovX1 = (contentElOffsetWidth \<noteq> 0 \<and> contentElScrollWidth > contentElOffsetWidth);
          ovY1 = (contentElScrollHeight > contentWrapperElOffsetHeight);
          ovX2 = (if elOverflowX = ''hidden'' then False else ovX1);
          ovY2 = (if elOverflowY = ''hidden'' then False else ovY1);
          fvX = (opt_forceVisible (options s3) = ForceAxis X \<or> opt_forceVisible (options s3) = ForceBool True);
          fvY = (opt_forceVisible (options s3) = ForceAxis Y \<or> opt_forceVisible (options s3) = ForceBool True);
          offsetForXScrollbar = (if ovX2 then scrollbarWidth s3 else 0);
          offsetForYScrollbar = (if ovY2 then scrollbarWidth s3 else 0);
          ovX3 = (ovX2 \<and> contentElScrollWidth > contentWrapperElOffsetWidth - offsetForYScrollbar);
          ovY3 = (ovY2 \<and> contentElScrollHeight > contentWrapperElOffsetHeight - offsetForXScrollbar);
          s4 = s3\<lparr>axis_x := (axis_x s3)\<lparr>isOverflowing := ovX3, forceVisible := fvX\<rparr>,
                   axis_y := (axis_y s3)\<lparr>isOverflowing := ovY3, forceVisible := fvY\<rparr>\<rparr>;
          s5 = ax_map X (\<lambda>p. p\<lparr>scrollbar := (scrollbar p)\<lparr>part_size := getScrollbarSize X g s4\<rparr>\<rparr>) s4
      in ax_map Y (\<lambda>p. p\<lparr>scrollbar := (scrollbar p)\<lparr>part_size := getScrollbarSize Y g s5\<rparr>\<rparr>) s5)"


definition recalculate :: "layout \<Rightarrow> state \<Rightarrow> state" where
  "recalculate g s =
     (if heightAutoObserverEl s = None \<or> contentEl s = None \<or> contentWrapperEl s = None
         \<or> wrapperEl s = None then s
      else
        let s6 = measureStep g s;
            s7 = set_scrollbar_size_style X s6;
            s8 = set_scrollbar_size_style Y s7;
            s9 = positionScrollbar X g s8;
            s10 = positionScrollbar Y g s9;
            s11 = toggleTrackVisibility X s10
        in toggleTrackVisibility Y s11)"

section \<open>Showing and hiding the handle\<close>

text \<open>
  Modelled from the spec: \<^verbatim>\<open>helpers.addClasses\<close> and \<^verbatim>\<open>helpers.removeClasses\<close> are not
  among the sources; the spec lists class list add/remove for the visible and dragging
  markers on the DOM write surface. A missing element is skipped.
\<close>

definition addClassTo :: "string \<Rightarrow> elem \<Rightarrow> elem" where
  "addClassTo c x = x\<lparr>classList := classList_add c (classList x)\<rparr>"

definition removeClassFrom :: "string \<Rightarrow> elem \<Rightarrow> elem" where
  "removeClassFrom c x = x\<lparr>classList := classList_remove c (classList x)\<rparr>"

definition addClasses :: "elem option \<Rightarrow> string \<Rightarrow> elem option" where
  "addClasses e c = map_option (addClassTo c) e"

definition removeClasses :: "elem option \<Rightarrow> string \<Rightarrow> elem option" where
  "removeClasses e c = map_option (removeClassFrom c) e"

definition showScrollbar :: "axis \<Rightarrow> state \<Rightarrow> state" where
  "showScrollbar a s =
     (if isOverflowing (ax a s) \<and> \<not> part_isVisible (scrollbar (ax a s))
      then ax_map a (\<lambda>p. p\<lparr>scrollbar := (scrollbar p)
              \<lparr>part_el := addClasses (part_el (scrollbar p)) (cn_visible (classNames s)),
               part_isVisible := True\<rparr>\<rparr>) s
      else s)"

definition hideScrollbar :: "axis \<Rightarrow> state \<Rightarrow> state" where
  "hideScrollbar a s =
     (if isDragging s then s
      else if isOverflowing (ax a s) \<and> part_isVisible (scrollbar (ax a s))
      then ax_map a (\<lambda>p. p\<lparr>scrollbar := (scrollbar p)
              \<lparr>part_el := removeClasses (part_el (scrollbar p)) (cn_visible (classNames s)),
               part_isVisible := False\<rparr>\<rparr>) s
      else s)"

section \<open>Scroll synchronisation\<close>

text \<open>
  \<^verbatim>\<open>onStopScrolling\<close> and \<^verbatim>\<open>onMouseEntered\<close> are debounced: a call arms (or re-arms)
  the timer, and the wrapped function runs when the timer fires.
\<close>

definition onScroll :: "state \<Rightarrow> state" where
  "onScroll s =
     (let s1 = (if \<not> scrollXTicking s then s\<lparr>raf := raf s @ [ScrollX], scrollXTicking := True\<rparr> else s);
          s2 = (if \<not> scrollYTicking s1 then s1\<lparr>raf := raf s1 @ [ScrollY], scrollYTicking := True\<rparr> else s1);
          s3 = (if \<not> isScrolling s2 then s2\<lparr>isScrolling := True\<rparr> else s2);
          s4 = showScrollbar X s3;
          s5 = showScrollbar Y s4
      in s5\<lparr>stopScrollingPending := True\<rparr>)"

definition scrollX :: "layout \<Rightarrow> state \<Rightarrow> state" where
  "scrollX g s =
     (let s1 = (if isOverflowing (axis_x s) then positionScrollbar X g s else s)
      in s1\<lparr>scrollXTicking := False\<rparr>)"

definition scrollY :: "layout \<Rightarrow> state \<Rightarrow> state" where
  "scrollY g s =
     (let s1 = (if isOverflowing (axis_y s) then positionScrollbar Y g s else s)
      in s1\<lparr>scrollYTicking := False\<rparr>)"

definition onStopScrolling_body :: "state \<Rightarrow> state" where
  "onStopScrolling_body s =
     (let s1 = (if autoHide (options s) then hideScrollbar Y (hideScrollbar X s) else s)
      in s1\<lparr>isScrolling := False\<rparr>)"

definition onMouseEnter :: "state \<Rightarrow> state" where
  "onMouseEnter s =
     (let s1 = (if \<not> isMouseEntering s
                then (showScrollbar Y (showScrollbar X s))\<lparr>isMouseEntering := True\<rparr> else s)
      in s1\<lparr>mouseEnteredPending := True\<rparr>)"

definition onMouseEntered_body :: "state \<Rightarrow> state" where
  "onMouseEntered_body s =
     (let s1 = (if autoHide (options s) then hideScrollbar Y (hideScrollbar X s) else s)
      in s1\<lparr>isMouseEntering := False\<rparr>)"

section \<open>Pointer tracking\<close>

record mouseEvent =
  ev_type :: string
  pointerType :: string
  pageX :: rat
  pageY :: rat
  clientX :: rat
  clientY :: rat

definition onMouseMoveForAxis :: "axis \<Rightarrow> layout \<Rightarrow> state \<Rightarrow> state" where
  "onMouseMoveForAxis a g s =
     (if part_el (track (ax a s)) = None \<or> part_el (scrollbar (ax a s)) = None then s
      else ax_map a (\<lambda>p. p\<lparr>track := (track p)\<lparr>part_rect := Some (track_rect a g)\<rparr>,
                            scrollbar := (scrollbar p)\<lparr>part_rect := Some (scrollbar_rect a g)\<rparr>\<rparr>) s)"

definition onMouseMove_body :: "mouseEvent \<Rightarrow> layout \<Rightarrow> state \<Rightarrow> state" where
  "onMouseMove_body e g s =
     (let s1 = s\<lparr>mouseX := clientX e, mouseY := clientY e\<rparr>;
          s2 = (if isOverflowing (axis_x s1) \<or> forceVisible (axis_x s1)
                then onMouseMoveForAxis X g s1 else s1)
      in if isOverflowing (axis_y s2) \<or> forceVisible (axis_y s2)
         then onMouseMoveForAxis Y g s2 else s2)"

definition onMouseLeave :: "state \<Rightarrow> state" where
  "onMouseLeave s = s\<lparr>mouseX := - 1, mouseY := - 1, isMouseEntering := False\<rparr>"

definition isWithinBounds :: "rect \<Rightarrow> state \<Rightarrow> bool" where
  "isWithinBounds bbox s =
     (mouseX s \<ge> rect_left bbox \<and> mouseX s \<le> rect_left bbox + rect_width bbox \<and>
      mouseY s \<ge> rect_top bbox \<and> mouseY s \<le> rect_top bbox + rect_height bbox)"

section \<open>Dragging\<close>

definition eventOffsetOf :: "axis \<Rightarrow> mouseEvent \<Rightarrow> rat" where
  "eventOffsetOf a e = (case a of Y \<Rightarrow> pageY e | X \<Rightarrow> pageX e)"

definition onDragStart :: "mouseEvent \<Rightarrow> axis \<Rightarrow> state \<Rightarrow> state" where
  "onDragStart e a s =
     (let s1 = s\<lparr>isDragging := True\<rparr>;
          eventOffset = eventOffsetOf a e;
          rectOffset = (case part_rect (scrollbar (ax a s1)) of None \<Rightarrow> 0 | Some r \<Rightarrow> rect_offset a r);
          s2 = ax_map a (\<lambda>p. p\<lparr>dragOffset := eventOffset - rectOffset\<rparr>) s1;
          s3 = s2\<lparr>draggedAxis := Some a\<rparr>;
          s4 = s3\<lparr>el := addClassTo (cn_dragging (classNames s3)) (el s3)\<rparr>;
          s5 = s4\<lparr>dragListeners := True\<rparr>
      in if \<not> removePreventClickId s5 then s5\<lparr>clickListeners := True\<rparr>
         else s5\<lparr>removePreventClickId := False\<rparr>)"

text \<open>
  \<^verbatim>\<open>onPointerEvent\<close> is modelled with two helpers for its measurements:
  \<open>measureTracks\<close> stores the bounding rectangles of the two tracks, the x track first,
  and \<open>measureHandle\<close> stores the bounding rectangle of the handle of one axis.
\<close>

definition measureTracks :: "layout \<Rightarrow> state \<Rightarrow> state" where
  "measureTracks g s =
     (let s1 = s\<lparr>axis_x := (axis_x s)\<lparr>track := (track (axis_x s))\<lparr>part_rect := Some (trackX_rect g)\<rparr>\<rparr>\<rparr>
      in s1\<lparr>axis_y := (axis_y s1)\<lparr>track := (track (axis_y s1))\<lparr>part_rect := Some (trackY_rect g)\<rparr>\<rparr>\<rparr>)"

definition measureHandle :: "axis \<Rightarrow> layout \<Rightarrow> state \<Rightarrow> state" where
  "measureHandle a g s =
     ax_map a (\<lambda>p. p\<lparr>scrollbar := (scrollbar p)\<lparr>part_rect := Some (scrollbar_rect a g)\<rparr>\<rparr>) s"

definition onPointerEvent :: "mouseEvent \<Rightarrow> layout \<Rightarrow> state \<Rightarrow> state" where
  "onPointerEvent e g s =
     (if part_el (track (axis_x s)) = None \<or> part_el (track (axis_y s)) = None \<or>
         part_el (scrollbar (axis_x s)) = None \<or> part_el (scrollbar (axis_y s)) = None then s
      else
        let s2 = measureTracks g s;
            isWithinTrackXBounds = ((isOverflowing (axis_x s2) \<or> forceVisible (axis_x s2))
                                    \<and> isWithinBounds (trackX_rect g) s2);
            isWithinTrackYBounds = ((isOverflowing (axis_y s2) \<or> forceVisible (axis_y s2))
                                    \<and> isWithinBounds (trackY_rect g) s2)
        in if isWithinTrackXBounds \<or> isWithinTrackYBounds
           then
             if ev_type e = ''pointerdown'' \<and> pointerType e \<noteq> ''touch''
             then
               let s3 = (if isWithinTrackXBounds
                         then
                           let t = measureHandle X g s2
                           in if isWithinBounds (scrollbarX_rect g) t then onDragStart e X t else t
                         else s2)
               in if isWithinTrackYBounds
                  then
                    let t = measureHandle Y g s3
                    in if isWithinBounds (scrollbarY_rect g) t then onDragStart e Y t else t
                  else s3
             else s2
           else s2)"

definition set_scrollOffsetAttr :: "axis \<Rightarrow> jsnum \<Rightarrow> elem \<Rightarrow> elem" where
  "set_scrollOffsetAttr a v e = (case a of X \<Rightarrow> e\<lparr>scrollLeft := Some v\<rparr> | Y \<Rightarrow> e\<lparr>scrollTop := Some v\<rparr>)"

definition drag :: "mouseEvent \<Rightarrow> layout \<Rightarrow> state \<Rightarrow> state" where
  "drag e g s =
     (case draggedAxis s of
        None \<Rightarrow> s
      | Some a \<Rightarrow>
         (case contentWrapperEl s of
            None \<Rightarrow> s
          | Some cw \<Rightarrow>
              let trackRect = part_rect (track (ax a s));
                  trackSize = (case trackRect of None \<Rightarrow> 0 | Some r \<Rightarrow> rect_size a r);
                  sbSize = part_size (scrollbar (ax a s));
                  contentSize = cw_scrollSize a g;
                  hostSize = parseInt (if elStyles s then cs_size a g else ''0px'');
                  eventOffset = eventOffsetOf a e;
                  dragPos0 = eventOffset
                             - (case trackRect of None \<Rightarrow> 0 | Some r \<Rightarrow> rect_offset a r)
                             - dragOffset (ax a s);
                  rtlX = (a = X \<and> isRtl s);
                  dragPos = (if rtlX then trackSize - sbSize - dragPos0 else dragPos0);
                  dragPerc = jsdiv (Fin dragPos) (Fin (trackSize - sbSize));
                  scrollPos0 = jsmul dragPerc (jssub (Fin (of_int contentSize)) hostSize);
                  (h, s1) = (if rtlX then getRtlHelpers g s else (None, s));
                  scrollPos = (if rtlX then (if toNegative h then jsneg scrollPos0 else scrollPos0)
                               else scrollPos0)
              in s1\<lparr>contentWrapperEl := Some (set_scrollOffsetAttr a scrollPos cw)\<rparr>))"

definition onEndDrag :: "state \<Rightarrow> state" where
  "onEndDrag s =
     (let s1 = s\<lparr>isDragging := False\<rparr>;
          s2 = s1\<lparr>el := removeClassFrom (cn_dragging (classNames s1)) (el s1)\<rparr>;
          s3 = s2\<lparr>stopScrollingPending := True\<rparr>;
          s4 = s3\<lparr>dragListeners := False\<rparr>
      in s4\<lparr>removePreventClickId := True\<rparr>)"

definition removePreventClick :: "state \<Rightarrow> state" where
  "removePreventClick s = s\<lparr>clickListeners := False, removePreventClickId := False\<rparr>"


section \<open>Construction\<close>

definition emptyElem :: elem where
  "emptyElem = \<lparr>style_width = None, style_height = None, style_left = None, style_top = None,
     style_display = None, style_visibility = None, style_overflowX = None,
     style_overflowY = None, classList = [], scrollLeft = None, scrollTop = None\<rparr>"

definition defaultOptions :: Options where
  "defaultOptions = \<lparr>opt_forceVisible = ForceBool False, scrollbarMinSize = 25,
     scrollbarMaxSize = 0, autoHide = True\<rparr>"

definition defaultClassNames :: ClassNames where
  "defaultClassNames = \<lparr>cn_visible = ''visible'', cn_dragging = ''dragging'',
     cn_scrollable = ''scrollable-area--suppress-scroll''\<rparr>"

definition newPart :: part where
  "newPart = \<lparr>part_size = 0, part_el = None, part_rect = None, part_isVisible = False\<rparr>"

definition newAxis :: AxisProps where
  "newAxis = \<lparr>dragOffset = 0, isOverflowing = True, forceVisible = False,
     track = newPart, scrollbar = newPart\<rparr>"

text \<open>The field initialisers and the constructor's assignments, before \<^verbatim>\<open>init\<close> runs.\<close>

definition construct :: "elem \<Rightarrow> Options \<Rightarrow> ClassNames \<Rightarrow> RtlHelpers option \<Rightarrow> state" where
  "construct element opts names cache =
     \<lparr>el = element, options = opts, classNames = names, axis_x = newAxis, axis_y = newAxis,
      draggedAxis = None, removePreventClickId = False, isScrolling = False,
      isMouseEntering = False, isDragging = False, scrollXTicking = False,
      scrollYTicking = False, wrapperEl = None, contentWrapperEl = None, contentEl = None,
      placeholderEl = None, heightAutoObserverEl = None, rtlHelpers = None, scrollbarWidth = 0,
      elStyles = False, isRtl = False, mouseX = 0, mouseY = 0, static_rtlHelpers = cache,
      raf = [], stopScrollingPending = False, mouseEnteredPending = False,
      dragListeners = False, clickListeners = False\<rparr>"

text \<open>
  What the selector queries of \<^verbatim>\<open>initDOM\<close> find. \<open>q_scrollbarX\<close> is the handle inside the
  horizontal track and is looked up only through that track.
\<close>

record domTree =
  scrollableNode :: "elem option"
  contentNode :: "elem option"
  q_wrapper :: "elem option"
  q_contentWrapper :: "elem option"
  q_contentEl :: "elem option"
  q_placeholder :: "elem option"
  q_heightAutoObserverEl :: "elem option"
  q_trackX :: "elem option"
  q_trackY :: "elem option"
  q_scrollbarX :: "elem option"
  q_scrollbarY :: "elem option"

datatype error = TypeError

text \<open>
  \<^verbatim>\<open>findChild\<close> reads \<^verbatim>\<open>el.matches\<close>, so looking for the placeholder under a missing
  wrapper throws.
\<close>

definition por :: "'a option \<Rightarrow> 'a option \<Rightarrow> 'a option" where
  "por a b = (case a of Some x \<Rightarrow> Some x | None \<Rightarrow> b)"

definition initDOM :: "domTree \<Rightarrow> state \<Rightarrow> error + state" where
  "initDOM d s =
     (case q_wrapper d of
        None \<Rightarrow> Inl TypeError
      | Some w \<Rightarrow>
          let sbX = (case q_trackX d of None \<Rightarrow> None | Some _ \<Rightarrow> q_scrollbarX d);
              sbY = (case q_trackY d of None \<Rightarrow> None | Some _ \<Rightarrow> q_scrollbarY d);
              vis = cn_visible (classNames s);
              sbX' = (if \<not> autoHide (options s) then addClasses sbX vis else sbX);
              sbY' = (if \<not> autoHide (options s) then addClasses sbY vis else sbY)
          in Inr (s\<lparr>wrapperEl := Some w,
                    contentWrapperEl := por (scrollableNode d) (q_contentWrapper d),
                    contentEl := por (contentNode d) (q_contentEl d),
                    placeholderEl := q_placeholder d,
                    heightAutoObserverEl := q_heightAutoObserverEl d,
                    axis_x := (axis_x s)\<lparr>track := (track (axis_x s))\<lparr>part_el := q_trackX d\<rparr>,
                                         scrollbar := (scrollbar (axis_x s))\<lparr>part_el := sbX'\<rparr>\<rparr>,
                    axis_y := (axis_y s)\<lparr>track := (track (axis_y s))\<lparr>part_el := q_trackY d\<rparr>,
                                         scrollbar := (scrollbar (axis_y s))\<lparr>part_el := sbY'\<rparr>\<rparr>\<rparr>))"

section \<open>Events\<close>

text \<open>
  The host delivers events one at a time. A frame runs the callbacks queued before it, in
  order; an observer notification queues a recalculation; a debounce timer that fires runs
  its function once.
\<close>

datatype event =
    EvScroll
  | EvFrame layout
  | EvObserver
  | EvStopScrollingTimer
  | EvMouseEnter
  | EvMouseEnteredTimer
  | EvMouseMove mouseEvent layout
  | EvMouseLeave
  | EvPointer mouseEvent layout
  | EvDocumentMouseMove mouseEvent layout
  | EvDocumentMouseUp
  | EvClickTimer
  | EvWindowResize int

fun runCallback :: "layout \<Rightarrow> callback \<Rightarrow> state \<Rightarrow> state" where
  "runCallback g ScrollX s = scrollX g s"
| "runCallback g ScrollY s = scrollY g s"
| "runCallback g Recalculate s = recalculate g s"

fun runCallbacks :: "layout \<Rightarrow> callback list \<Rightarrow> state \<Rightarrow> state" where
  "runCallbacks g [] s = s"
| "runCallbacks g (c # cs) s = runCallbacks g cs (runCallback g c s)"

fun step :: "event \<Rightarrow> state \<Rightarrow> state" where
  "step EvScroll s = onScroll s"
| "step (EvFrame g) s = runCallbacks g (raf s) (s\<lparr>raf := []\<rparr>)"
| "step EvObserver s = s\<lparr>raf := raf s @ [Recalculate]\<rparr>"
| "step EvStopScrollingTimer s =
     (if stopScrollingPending s then onStopScrolling_body (s\<lparr>stopScrollingPending := False\<rparr>) else s)"
| "step EvMouseEnter s = onMouseEnter s"
| "step EvMouseEnteredTimer s =
     (if mouseEnteredPending s then onMouseEntered_body (s\<lparr>mouseEnteredPending := False\<rparr>) else s)"
| "step (EvMouseMove e g) s = onMouseMove_body e g s"
| "step EvMouseLeave s = onMouseLeave s"
| "step (EvPointer e g) s = onPointerEvent e g s"
| "step (EvDocumentMouseMove e g) s = (if dragListeners s then drag e g s else s)"
| "step EvDocumentMouseUp s = (if dragListeners s then onEndDrag s else s)"
| "step EvClickTimer s = (if removePreventClickId s then removePreventClick s else s)"
| "step (EvWindowResize w) s = s\<lparr>scrollbarWidth := w\<rparr>"

fun run :: "event list \<Rightarrow> state \<Rightarrow> state" where
  "run [] s = s"
| "run (e # es) s = run es (step e s)"


section \<open>A mounted widget and a concrete layout\<close>

definition fullTree :: domTree where
  "fullTree = \<lparr>scrollableNode = None, contentNode = None, q_wrapper = Some emptyElem,
     q_contentWrapper = Some emptyElem, q_contentEl = Some emptyElem,
     q_placeholder = Some emptyElem, q_heightAutoObserverEl = Some emptyElem,
     q_trackX = Some emptyElem, q_trackY = Some emptyElem, q_scrollbarX = Some emptyElem,
     q_scrollbarY = Some emptyElem\<rparr>"

definition mountedPart :: part where
  "mountedPart = newPart\<lparr>part_el := Some emptyElem\<rparr>"

definition mounted :: state where
  "mounted = (construct emptyElem defaultOptions defaultClassNames None)
     \<lparr>wrapperEl := Some emptyElem, contentWrapperEl := Some emptyElem,
      contentEl := Some emptyElem, placeholderEl := Some emptyElem,
      heightAutoObserverEl := Some emptyElem,
      axis_x := newAxis\<lparr>track := mountedPart, scrollbar := mountedPart\<rparr>,
      axis_y := newAxis\<lparr>track := mountedPart, scrollbar := mountedPart\<rparr>\<rparr>"

definition zeroRect :: rect where
  "zeroRect = \<lparr>rect_left = 0, rect_top = 0, rect_width = 0, rect_height = 0\<rparr>"

text \<open>
  Content 1000 pixels tall in a 200 pixel viewport with a 196 pixel track, scrolled to
  offset 400; nothing overflows horizontally.
\<close>

definition scenario :: layout where
  "scenario = \<lparr>cs_direction = ''ltr'', cs_overflowX = ''visible'', cs_overflowY = ''visible'',
     cs_width = ''200px'', cs_height = ''200px'',
     content_offsetWidth = 200, content_scrollWidth = 200, content_scrollHeight = 1000,
     observer_offsetHeight = 200, observer_offsetWidth = 200,
     cw_offsetWidth = 200, cw_offsetHeight = 200, cw_scrollWidth = 200, cw_scrollHeight = 1000,
     cw_scrollLeft = 0, cw_scrollTop = 400,
     trackX_offsetWidth = 196, trackY_offsetHeight = 196,
     trackX_rect = zeroRect, trackY_rect = zeroRect,
     scrollbarX_rect = zeroRect, scrollbarY_rect = zeroRect,
     rtlProbe = Some \<lparr>isScrollOriginAtZero = True, isScrollingToNegative = True\<rparr>\<rparr>"


text \<open>The same layout with a 10 pixel track, and the widget with a maximum handle size.\<close>

definition narrowTrack :: layout where
  "narrowTrack = scenario\<lparr>trackY_offsetHeight := 10\<rparr>"

definition capped :: state where
  "capped = mounted\<lparr>options := defaultOptions\<lparr>scrollbarMaxSize := 30\<rparr>\<rparr>"

text \<open>
  Both axes overflow and both are scrolled to the end, so the two handles meet in the
  bottom right corner of the host.
\<close>

definition corner :: layout where
  "corner = \<lparr>cs_direction = ''ltr'', cs_overflowX = ''visible'', cs_overflowY = ''visible'',
     cs_width = ''200px'', cs_height = ''200px'',
     content_offsetWidth = 200, content_scrollWidth = 1000, content_scrollHeight = 1000,
     observer_offsetHeight = 200, observer_offsetWidth = 200,
     cw_offsetWidth = 200, cw_offsetHeight = 200, cw_scrollWidth = 1000, cw_scrollHeight = 1000,
     cw_scrollLeft = 800, cw_scrollTop = 800,
     trackX_offsetWidth = 196, trackY_offsetHeight = 196,
     trackX_rect = \<lparr>rect_left = 2, rect_top = 189, rect_width = 196, rect_height = 11\<rparr>,
     trackY_rect = \<lparr>rect_left = 189, rect_top = 2, rect_width = 11, rect_height = 196\<rparr>,
     scrollbarX_rect = \<lparr>rect_left = 160, rect_top = 189, rect_width = 38, rect_height = 11\<rparr>,
     scrollbarY_rect = \<lparr>rect_left = 189, rect_top = 160, rect_width = 11, rect_height = 38\<rparr>,
     rtlProbe = Some \<lparr>isScrollOriginAtZero = True, isScrollingToNegative = True\<rparr>\<rparr>"

text \<open>The same content at scroll offsets 0, with hidden overflow, and in a right-to-left host.\<close>

definition atOrigin :: layout where
  "atOrigin = corner\<lparr>cw_scrollLeft := 0, cw_scrollTop := 0\<rparr>"

definition hiddenBoth :: layout where
  "hiddenBoth = corner\<lparr>cs_overflowX := ''hidden'', cs_overflowY := ''hidden''\<rparr>"

definition rtlFixture :: layout where
  "rtlFixture = corner\<lparr>cs_direction := ''rtl'', cw_scrollLeft := - 400,
     scrollbarX_rect := \<lparr>rect_left = 81, rect_top = 189, rect_width = 38, rect_height = 11\<rparr>\<rparr>"

definition rtlPositive :: layout where
  "rtlPositive = rtlFixture\<lparr>cw_scrollLeft := 400\<rparr>"

definition rtlWidget :: "bool \<Rightarrow> bool \<Rightarrow> state" where
  "rtlWidget originZero toNeg = recalculate rtlFixture
     (mounted\<lparr>static_rtlHelpers :=
        Some \<lparr>isScrollOriginAtZero = originZero, isScrollingToNegative = toNeg\<rparr>\<rparr>)"

definition mouseAt :: "string \<Rightarrow> rat \<Rightarrow> rat \<Rightarrow> mouseEvent" where
  "mouseAt t x y = \<lparr>ev_type = t, pointerType = ''mouse'', pageX = x, pageY = y,
     clientX = x, clientY = y\<rparr>"

text \<open>
  A right-to-left widget with a cached profile, measured in layout \<open>g\<close>, after the
  pointer has moved onto the horizontal handle and pressed there.
\<close>

definition rtlDragging :: "layout \<Rightarrow> bool \<Rightarrow> bool \<Rightarrow> state" where
  "rtlDragging g originZero toNeg =
     run [EvMouseMove (mouseAt ''mousemove'' 100 195) g,
          EvPointer (mouseAt ''pointerdown'' 100 195) g]
       (recalculate g (mounted\<lparr>static_rtlHelpers :=
          Some \<lparr>isScrollOriginAtZero = originZero, isScrollingToNegative = toNeg\<rparr>\<rparr>))"

text \<open>The widget measured in the corner layout, with the pointer over both handles.\<close>

definition overCorner :: state where
  "overCorner = run [EvMouseMove (mouseAt ''mousemove'' 195 195) corner]
     (recalculate corner mounted)"

text \<open>
  The widget measured in the corner layout, dragging the horizontal handle, the pointer
  then moved over the vertical handle only.
\<close>

definition draggingXOverY :: state where
  "draggingXOverY = run [EvMouseMove (mouseAt ''mousemove'' 170 195) corner,
       EvPointer (mouseAt ''pointerdown'' 170 195) corner,
       EvMouseMove (mouseAt ''mousemove'' 195 170) corner]
     (recalculate corner mounted)"

section \<open>Notions of the specification\<close>

text \<open>
  The drag position as a fraction of the free track length, mirrored on the x axis of a
  right-to-left host, and the scroll position it maps to before any sign correction.
\<close>

definition dragPercent :: "axis \<Rightarrow> mouseEvent \<Rightarrow> state \<Rightarrow> jsnum" where
  "dragPercent a e s =
     (let trackRect = part_rect (track (ax a s));
          trackSize = (case trackRect of None \<Rightarrow> 0 | Some r \<Rightarrow> rect_size a r);
          sbSize = part_size (scrollbar (ax a s));
          dragPos0 = eventOffsetOf a e
                     - (case trackRect of None \<Rightarrow> 0 | Some r \<Rightarrow> rect_offset a r)
                     - dragOffset (ax a s);
          dragPos = (if a = X \<and> isRtl s then trackSize - sbSize - dragPos0 else dragPos0)
      in jsdiv (Fin dragPos) (Fin (trackSize - sbSize)))"

definition dragScrollPos :: "axis \<Rightarrow> mouseEvent \<Rightarrow> layout \<Rightarrow> state \<Rightarrow> jsnum" where
  "dragScrollPos a e g s =
     jsmul (dragPercent a e s)
       (jssub (Fin (of_int (cw_scrollSize a g)))
              (parseInt (if elStyles s then cs_size a g else ''0px'')))"

text \<open>The pointer is over the handle of an axis whose track is shown.\<close>

definition handleHit :: "axis \<Rightarrow> layout \<Rightarrow> state \<Rightarrow> bool" where
  "handleHit a g s =
     ((isOverflowing (ax a s) \<or> forceVisible (ax a s))
      \<and> isWithinBounds (track_rect a g) s \<and> isWithinBounds (scrollbar_rect a g) s)"

text \<open>Which of the track and handle elements are missing: x track, x handle, y track, y handle.\<close>

definition missing :: "state \<Rightarrow> bool \<times> bool \<times> bool \<times> bool" where
  "missing s = (part_el (track (axis_x s)) = None, part_el (scrollbar (axis_x s)) = None,
                part_el (track (axis_y s)) = None, part_el (scrollbar (axis_y s)) = None)"

text \<open>A document without a horizontal track.\<close>

definition noTrackX :: domTree where
  "noTrackX = fullTree\<lparr>q_trackX := None\<rparr>"

text \<open>
  The pending flags agree with the frame queue: a reposition callback of an axis is queued
  at most once, and exactly when the flag of the axis is set.
\<close>

definition tickingInv :: "state \<Rightarrow> bool" where
  "tickingInv s =
     (count_list (raf s) ScrollX \<le> 1 \<and> count_list (raf s) ScrollY \<le> 1
      \<and> scrollXTicking s = (ScrollX \<in> set (raf s))
      \<and> scrollYTicking s = (ScrollY \<in> set (raf s)))"

text \<open>A document without the height-auto observer element.\<close>

definition noObserver :: domTree where
  "noObserver = fullTree\<lparr>q_heightAutoObserverEl := None\<rparr>"

text \<open>The pointer is over the shown track of an axis.\<close>

definition trackHit :: "axis \<Rightarrow> layout \<Rightarrow> state \<Rightarrow> bool" where
  "trackHit a g s =
     ((isOverflowing (ax a s) \<or> forceVisible (ax a s)) \<and> isWithinBounds (track_rect a g) s)"

section \<open>Closed forms used in the proofs\<close>

text \<open>
  The proportional formula of the handle offset: the scroll offset as a fraction of the
  scrollable distance, times the free length of the track, truncated to an integer.
\<close>

definition proportionalOffset :: "rat \<Rightarrow> rat \<Rightarrow> rat \<Rightarrow> rat \<Rightarrow> jsnum \<Rightarrow> rat" where
  "proportionalOffset trackSize sbSize scrollOffset contentSize hostSize =
     of_int (toInt32 (jsmul (Fin (trackSize - sbSize))
                            (jsdiv (Fin scrollOffset) (jssub (Fin contentSize) hostSize))))"

text \<open>The two sign corrections of the horizontal scroll offset in a right-to-left host.\<close>

definition rtlScrollOffset :: "RtlHelpers option \<Rightarrow> rat \<Rightarrow> rat" where
  "rtlScrollOffset h off =
     (let off1 = (if originAtZero h then - off else off)
      in if toNegative h then off1 else - off1)"

text \<open>
  The handle offset as a function of what \<open>positionScrollbar\<close> reads: the track size,
  the handle size, the direction and the RTL profile.
\<close>

definition handleOffsetOf ::
  "axis \<Rightarrow> layout \<Rightarrow> int \<Rightarrow> rat \<Rightarrow> bool \<Rightarrow> RtlHelpers option \<Rightarrow> rat" where
  "handleOffsetOf a g trackSize sbSize rtl h =
     (let t = of_int trackSize;
          c = of_int (cw_scrollSize a g);
          hs = parseInt (cs_size a g);
          off = cw_scrollOffset a g
      in if a = X \<and> rtl
         then t - sbSize - proportionalOffset t sbSize (rtlScrollOffset h off) c hs
         else proportionalOffset t sbSize off c hs)"

definition computedHandleOffset :: "axis \<Rightarrow> layout \<Rightarrow> state \<Rightarrow> rat" where
  "computedHandleOffset a g s =
     handleOffsetOf a g (trackSizeOf a g s) (part_size (scrollbar (ax a s))) (isRtl s)
       (fst (getRtlHelpers g s))"

definition writeOffset :: "axis \<Rightarrow> rat \<Rightarrow> elem \<Rightarrow> elem" where
  "writeOffset a h e = (case a of X \<Rightarrow> e\<lparr>style_left := Some (Px h)\<rparr>
     | Y \<Rightarrow> e\<lparr>style_top := Some (Px (if h = 0 then 2 else h))\<rparr>)"

definition cacheRtl :: "axis \<Rightarrow> layout \<Rightarrow> state \<Rightarrow> state" where
  "cacheRtl a g s = (if a = X \<and> isRtl s then snd (getRtlHelpers g s) else s)"

section \<open>Arithmetic of the handle size\<close>

lemma wrap32_le: "0 \<le> n \<Longrightarrow> wrap32 n \<le> n"
proof -
  assume "0 \<le> n"
  then have "(n + 2 ^ 31) mod 2 ^ 32 \<le> n + 2 ^ 31"
    by (intro zmod_le_nonneg_dividend) simp
  then show ?thesis by (simp add: wrap32_def)
qed

lemma ratio_floor_le:
  fixes t c :: int
  assumes "0 \<le> t" "t \<le> c"
  shows "toInt32 (jsmul (jsdiv (Fin (of_int t)) (Fin (of_int c))) (Fin (of_int t))) \<le> t"
proof (cases "c = 0")
  case True
  with assms have "t = 0" by simp
  with True show ?thesis by (simp add: toInt32_def jsinf_def jssign_def)
next
  case False
  with assms have cpos: "0 < c" by simp
  let ?q = "(of_int t :: rat) / of_int c * of_int t"
  have q0: "0 \<le> ?q" using assms cpos by simp
  have "(of_int t :: rat) / of_int c \<le> 1" using assms cpos by simp
  then have "?q \<le> 1 * of_int t" using assms by (intro mult_right_mono) simp_all
  then have "\<lfloor>?q\<rfloor> \<le> t" by (simp add: floor_le_iff)
  moreover have "0 \<le> \<lfloor>?q\<rfloor>" using q0 by simp
  ultimately have "wrap32 \<lfloor>?q\<rfloor> \<le> t" using wrap32_le[of "\<lfloor>?q\<rfloor>"] by linarith
  then show ?thesis using False q0 by (simp add: toInt32_def trunc_def)
qed

section \<open>C1: bounds of the handle size\<close>

text \<open>
  C1, as stated, fails. In the scenario with a 10 pixel track the vertical axis overflows
  and \<open>getScrollbarSize\<close> returns the minimum size 25, which exceeds the track; the
  horizontal axis does not overflow and gets size 0, which is below the minimum size.
\<close>

theorem getScrollbarSize_exceeds_track:
  "0 \<le> scrollbarMinSize (options (recalculate narrowTrack mounted))
   \<and> scrollbarMaxSize (options (recalculate narrowTrack mounted)) = 0
   \<and> content_scrollSize Y narrowTrack = 1000
   \<and> trackSizeOf Y narrowTrack (recalculate narrowTrack mounted) = 10
   \<and> getScrollbarSize Y narrowTrack (recalculate narrowTrack mounted) = 25
   \<and> part_size (scrollbar (axis_y (recalculate narrowTrack mounted))) = 25
   \<and> \<not> getScrollbarSize Y narrowTrack (recalculate narrowTrack mounted)
          \<le> of_int (trackSizeOf Y narrowTrack (recalculate narrowTrack mounted))
   \<and> getScrollbarSize X narrowTrack (recalculate narrowTrack mounted) = 0
   \<and> \<not> scrollbarMinSize (options (recalculate narrowTrack mounted))
          \<le> getScrollbarSize X narrowTrack (recalculate narrowTrack mounted)"
  by code_simp

text \<open>
  C1, amended. When the axis does not overflow (or there is no content element) the size
  is 0. Otherwise the size is at least \<open>scrollbarMinSize\<close> provided
  \<open>scrollbarMaxSize\<close> is 0 or not below \<open>scrollbarMinSize\<close>; it is at most
  \<open>scrollbarMaxSize\<close> when that is non-zero; and it is at most the track size provided
  the minimum size fits in the track and the track is not longer than the content.
\<close>

theorem getScrollbarSize_bounds:
  "(if \<not> isOverflowing (ax a s) \<or> contentEl s = None then getScrollbarSize a g s = 0
    else ((scrollbarMaxSize (options s) = 0
             \<or> scrollbarMinSize (options s) \<le> scrollbarMaxSize (options s))
            \<longrightarrow> scrollbarMinSize (options s) \<le> getScrollbarSize a g s)
       \<and> (scrollbarMaxSize (options s) \<noteq> 0
            \<longrightarrow> getScrollbarSize a g s \<le> scrollbarMaxSize (options s))
       \<and> (scrollbarMinSize (options s) \<le> of_int (trackSizeOf a g s)
            \<and> 0 \<le> trackSizeOf a g s \<and> trackSizeOf a g s \<le> content_scrollSize a g
            \<longrightarrow> getScrollbarSize a g s \<le> of_int (trackSizeOf a g s)))"
proof (cases "\<not> isOverflowing (ax a s) \<or> contentEl s = None")
  case True
  then have "getScrollbarSize a g s = 0" unfolding getScrollbarSize_def by simp
  with True show ?thesis by simp
next
  case False
  define x where "x = toInt32 (jsmul (jsdiv (Fin (of_int (trackSizeOf a g s)))
      (Fin (of_int (content_scrollSize a g)))) (Fin (of_int (trackSizeOf a g s))))"
  have r: "getScrollbarSize a g s =
      (if scrollbarMaxSize (options s) \<noteq> 0
       then min (max (of_int x) (scrollbarMinSize (options s))) (scrollbarMaxSize (options s))
       else max (of_int x) (scrollbarMinSize (options s)))"
    by (simp only: getScrollbarSize_def Let_def x_def False if_False)
  have x: "0 \<le> trackSizeOf a g s \<and> trackSizeOf a g s \<le> content_scrollSize a g
     \<Longrightarrow> (of_int x :: rat) \<le> of_int (trackSizeOf a g s)"
    unfolding x_def using ratio_floor_le[of "trackSizeOf a g s" "content_scrollSize a g"]
    by (simp only: of_int_le_iff)
  show ?thesis using False x unfolding r by auto
qed

theorem getScrollbarSize_bounds_witness:
  "getScrollbarSize X scenario (recalculate scenario mounted) = 0
   \<and> 25 \<le> getScrollbarSize Y scenario (recalculate scenario mounted)
   \<and> getScrollbarSize Y scenario (recalculate scenario mounted) \<le> 196
   \<and> getScrollbarSize Y scenario (recalculate scenario capped) \<le> 30"
proof -
  have x: "\<not> isOverflowing (ax X (recalculate scenario mounted))
           \<or> contentEl (recalculate scenario mounted) = None"
    by code_simp
  have y: "\<not> (\<not> isOverflowing (ax Y (recalculate scenario mounted))
           \<or> contentEl (recalculate scenario mounted) = None)"
    "scrollbarMaxSize (options (recalculate scenario mounted)) = 0"
    "scrollbarMinSize (options (recalculate scenario mounted)) = 25"
    "trackSizeOf Y scenario (recalculate scenario mounted) = 196"
    "content_scrollSize Y scenario = 1000"
    by code_simp+
  have c: "\<not> (\<not> isOverflowing (ax Y (recalculate scenario capped))
           \<or> contentEl (recalculate scenario capped) = None)"
    "scrollbarMaxSize (options (recalculate scenario capped)) = 30"
    by code_simp+
  show ?thesis
    using getScrollbarSize_bounds [of X "recalculate scenario mounted" scenario]
      getScrollbarSize_bounds [of Y "recalculate scenario mounted" scenario]
      getScrollbarSize_bounds [of Y "recalculate scenario capped" scenario]
    by (simp only: x y c if_True if_False) simp
qed

section \<open>C5: the concrete scenario\<close>

text \<open>
  C5. Left to right, content 1000 pixels, host 200 pixels, track 196 pixels, minimum handle
  size 25 and no maximum: \<open>getScrollbarSize\<close> returns 38, which \<open>recalculate\<close> stores,
  and at scroll offset 400 \<open>positionScrollbar\<close> writes the handle offset 79.
\<close>

theorem scenario_size_38_offset_79:
  "cs_direction scenario \<noteq> ''rtl''
   \<and> content_scrollSize Y scenario = 1000 \<and> cw_scrollSize Y scenario = 1000
   \<and> parseInt (cs_size Y scenario) = Fin 200
   \<and> track_offsetSize Y scenario = 196
   \<and> cw_scrollOffset Y scenario = 400
   \<and> scrollbarMinSize (options mounted) = 25 \<and> scrollbarMaxSize (options mounted) = 0
   \<and> getScrollbarSize Y scenario (recalculate scenario mounted) = 38
   \<and> part_size (scrollbar (axis_y (recalculate scenario mounted))) = 38
   \<and> map_option style_height (part_el (scrollbar (axis_y (recalculate scenario mounted))))
       = Some (Some (Px 38))
   \<and> map_option style_top (part_el (scrollbar (axis_y
        (positionScrollbar Y scenario (recalculate scenario mounted)))))
       = Some (Some (Px 79))"
  by code_simp


theorem scenario_size_38_offset_79_witness:
  "getScrollbarSize Y scenario (recalculate scenario mounted) = 38
   \<and> map_option style_top (part_el (scrollbar (axis_y
        (positionScrollbar Y scenario (recalculate scenario mounted)))))
       = Some (Some (Px 79))"
  using scenario_size_38_offset_79 by simp


section \<open>What the steps of a recalculation read and keep\<close>

lemma getRtlHelpers_again:
  "getRtlHelpers g (snd (getRtlHelpers g s)) = (fst (getRtlHelpers g s), snd (getRtlHelpers g s))"
  by (cases "static_rtlHelpers s"; cases "rtlProbe g") (simp_all add: getRtlHelpers_def)

lemma getRtlHelpers_fields [simp]:
  "axis_x (snd (getRtlHelpers g s)) = axis_x s"
  "axis_y (snd (getRtlHelpers g s)) = axis_y s"
  "isRtl (snd (getRtlHelpers g s)) = isRtl s"
  "elStyles (snd (getRtlHelpers g s)) = elStyles s"
  "contentWrapperEl (snd (getRtlHelpers g s)) = contentWrapperEl s"
  "raf (snd (getRtlHelpers g s)) = raf s"
  "scrollXTicking (snd (getRtlHelpers g s)) = scrollXTicking s"
  "scrollYTicking (snd (getRtlHelpers g s)) = scrollYTicking s"
  by (simp_all add: getRtlHelpers_def split: option.splits)

lemma ax_snd_getRtlHelpers [simp]: "ax a (snd (getRtlHelpers g s)) = ax a s"
  by (cases a) (simp_all add: ax_def)

lemma positionScrollbar_guarded:
  assumes "part_el (scrollbar (ax a s)) = Some sb" "isOverflowing (ax a s)"
    "contentWrapperEl s \<noteq> None" "elStyles s"
  shows "positionScrollbar a g s =
     ax_map a (\<lambda>p. p\<lparr>scrollbar := (scrollbar p)\<lparr>part_el :=
                  Some (writeOffset a (computedHandleOffset a g s) sb)\<rparr>\<rparr>)
       (cacheRtl a g s)"
proof -
  from assms(3) obtain cw where cw: "contentWrapperEl s = Some cw" by auto
  note facts = assms(1,2,4) cw
  show ?thesis
  proof (cases "a = X \<and> isRtl s")
    case True
    then show ?thesis
      using facts
      by (simp add: positionScrollbar_def Let_def split_beta getRtlHelpers_again cacheRtl_def
          computedHandleOffset_def handleOffsetOf_def proportionalOffset_def rtlScrollOffset_def
          writeOffset_def)
  next
    case False
    then show ?thesis
      using facts
      by (cases a) (simp_all add: positionScrollbar_def Let_def split_beta cacheRtl_def
          computedHandleOffset_def handleOffsetOf_def proportionalOffset_def writeOffset_def)
  qed
qed

lemma positionScrollbar_unguarded:
  assumes "part_el (scrollbar (ax a s)) = None \<or> \<not> isOverflowing (ax a s)
    \<or> contentWrapperEl s = None \<or> \<not> elStyles s"
  shows "positionScrollbar a g s = s"
  using assms by (auto simp add: positionScrollbar_def split: option.splits)


lemma ax_simps [simp]: "ax X s = axis_x s" "ax Y s = axis_y s"
  by (simp_all add: ax_def)

lemma ax_map_simps [simp]:
  "axis_x (ax_map X f s) = f (axis_x s)" "axis_y (ax_map Y f s) = f (axis_y s)"
  "axis_x (ax_map Y f s) = axis_x s" "axis_y (ax_map X f s) = axis_y s"
  by (simp_all add: ax_map_def)

lemma cacheRtl_axes [simp]:
  "axis_x (cacheRtl a g s) = axis_x s" "axis_y (cacheRtl a g s) = axis_y s"
  by (simp_all add: cacheRtl_def)

section \<open>C6: the horizontal handle in a right-to-left host\<close>

text \<open>
  C6. In a right-to-left host with profile \<open>r\<close>, when \<open>positionScrollbar\<close> passes its
  guard on the x axis, the scroll offset is negated if \<open>isScrollOriginAtZero r\<close>, then
  negated again if not \<open>isScrollingToNegative r\<close>; the proportional formula is applied
  to the result, and the value written to \<^verbatim>\<open>left\<close> is the track size minus the handle
  size minus that offset. The statement holds for every profile, hence for each of the four
  combinations of the flags; the witness evaluates all four at scroll offset -400.
\<close>

theorem positionScrollbar_rtl_x:
  assumes "isRtl s" and "part_el (scrollbar (axis_x s)) \<noteq> None"
    and "isOverflowing (axis_x s)" and "contentWrapperEl s \<noteq> None" and "elStyles s"
    and "fst (getRtlHelpers g s) = Some r"
  shows "map_option style_left (part_el (scrollbar (axis_x (positionScrollbar X g s)))) =
     Some (Some (Px (of_int (trackSizeOf X g s) - part_size (scrollbar (axis_x s))
       - proportionalOffset (of_int (trackSizeOf X g s)) (part_size (scrollbar (axis_x s)))
           (let off1 = (if isScrollOriginAtZero r then - cw_scrollLeft g else cw_scrollLeft g)
            in if isScrollingToNegative r then off1 else - off1)
           (of_int (cw_scrollWidth g)) (parseInt (cs_width g)))))"
proof -
  from assms(2) obtain sb where sb: "part_el (scrollbar (ax X s)) = Some sb" by auto
  have "positionScrollbar X g s =
     ax_map X (\<lambda>p. p\<lparr>scrollbar := (scrollbar p)\<lparr>part_el :=
                  Some (writeOffset X (computedHandleOffset X g s) sb)\<rparr>\<rparr>) (cacheRtl X g s)"
    using positionScrollbar_guarded[OF sb, of g] assms by simp
  then show ?thesis
    using assms(1,6)
    by (simp add: writeOffset_def computedHandleOffset_def handleOffsetOf_def rtlScrollOffset_def
        originAtZero_def toNegative_def cw_scrollSize_def cs_size_def cw_scrollOffset_def Let_def)
qed

theorem positionScrollbar_rtl_x_witness:
  "map_option style_left (part_el (scrollbar (axis_x
       (positionScrollbar X rtlFixture (rtlWidget True True))))) = Some (Some (Px 79))
   \<and> map_option style_left (part_el (scrollbar (axis_x
       (positionScrollbar X rtlFixture (rtlWidget True False))))) = Some (Some (Px 237))
   \<and> map_option style_left (part_el (scrollbar (axis_x
       (positionScrollbar X rtlFixture (rtlWidget False True))))) = Some (Some (Px 237))
   \<and> map_option style_left (part_el (scrollbar (axis_x
       (positionScrollbar X rtlFixture (rtlWidget False False))))) = Some (Some (Px 79))"
proof -
  have tt: "isRtl (rtlWidget True True)" "part_el (scrollbar (axis_x (rtlWidget True True))) \<noteq> None"
    "isOverflowing (axis_x (rtlWidget True True))" "contentWrapperEl (rtlWidget True True) \<noteq> None"
    "elStyles (rtlWidget True True)"
    "fst (getRtlHelpers rtlFixture (rtlWidget True True))
       = Some \<lparr>isScrollOriginAtZero = True, isScrollingToNegative = True\<rparr>"
    "trackSizeOf X rtlFixture (rtlWidget True True) = 196"
    "part_size (scrollbar (axis_x (rtlWidget True True))) = 38"
    by code_simp+
  have tf: "isRtl (rtlWidget True False)" "part_el (scrollbar (axis_x (rtlWidget True False))) \<noteq> None"
    "isOverflowing (axis_x (rtlWidget True False))" "contentWrapperEl (rtlWidget True False) \<noteq> None"
    "elStyles (rtlWidget True False)"
    "fst (getRtlHelpers rtlFixture (rtlWidget True False))
       = Some \<lparr>isScrollOriginAtZero = True, isScrollingToNegative = False\<rparr>"
    "trackSizeOf X rtlFixture (rtlWidget True False) = 196"
    "part_size (scrollbar (axis_x (rtlWidget True False))) = 38"
    by code_simp+
  have ft: "isRtl (rtlWidget False True)" "part_el (scrollbar (axis_x (rtlWidget False True))) \<noteq> None"
    "isOverflowing (axis_x (rtlWidget False True))" "contentWrapperEl (rtlWidget False True) \<noteq> None"
    "elStyles (rtlWidget False True)"
    "fst (getRtlHelpers rtlFixture (rtlWidget False True))
       = Some \<lparr>isScrollOriginAtZero = False, isScrollingToNegative = True\<rparr>"
    "trackSizeOf X rtlFixture (rtlWidget False True) = 196"
    "part_size (scrollbar (axis_x (rtlWidget False True))) = 38"
    by code_simp+
  have ff: "isRtl (rtlWidget False False)" "part_el (scrollbar (axis_x (rtlWidget False False))) \<noteq> None"
    "isOverflowing (axis_x (rtlWidget False False))" "contentWrapperEl (rtlWidget False False) \<noteq> None"
    "elStyles (rtlWidget False False)"
    "fst (getRtlHelpers rtlFixture (rtlWidget False False))
       = Some \<lparr>isScrollOriginAtZero = False, isScrollingToNegative = False\<rparr>"
    "trackSizeOf X rtlFixture (rtlWidget False False) = 196"
    "part_size (scrollbar (axis_x (rtlWidget False False))) = 38"
    by code_simp+
  have v: "cw_scrollLeft rtlFixture = - 400" "cw_scrollWidth rtlFixture = 1000"
    "parseInt (cs_width rtlFixture) = Fin 200"
    "proportionalOffset 196 38 400 1000 (Fin 200) = 79"
    "proportionalOffset 196 38 (- 400) 1000 (Fin 200) = - 79"
    by code_simp+
  show ?thesis
    using positionScrollbar_rtl_x [OF tt(1-6)] positionScrollbar_rtl_x [OF tf(1-6)]
      positionScrollbar_rtl_x [OF ft(1-6)] positionScrollbar_rtl_x [OF ff(1-6)]
    by (simp add: tt(7,8) tf(7,8) ft(7,8) ff(7,8) v)
qed



lemma positionScrollbar_flags [simp]:
  "isOverflowing (axis_x (positionScrollbar a g s)) = isOverflowing (axis_x s)"
  "isOverflowing (axis_y (positionScrollbar a g s)) = isOverflowing (axis_y s)"
  "raf (positionScrollbar a g s) = raf s"
  "scrollXTicking (positionScrollbar a g s) = scrollXTicking s"
  "scrollYTicking (positionScrollbar a g s) = scrollYTicking s"
  by (cases a; simp add: positionScrollbar_def Let_def split_beta ax_map_def split: option.splits)+

lemma toggleTrackVisibility_flags [simp]:
  "isOverflowing (axis_x (toggleTrackVisibility a s)) = isOverflowing (axis_x s)"
  "isOverflowing (axis_y (toggleTrackVisibility a s)) = isOverflowing (axis_y s)"
  "raf (toggleTrackVisibility a s) = raf s"
  "scrollXTicking (toggleTrackVisibility a s) = scrollXTicking s"
  "scrollYTicking (toggleTrackVisibility a s) = scrollYTicking s"
  by (cases a; simp add: toggleTrackVisibility_def Let_def ax_map_def split: option.splits)+

lemma set_scrollbar_size_style_flags [simp]:
  "isOverflowing (axis_x (set_scrollbar_size_style a s)) = isOverflowing (axis_x s)"
  "isOverflowing (axis_y (set_scrollbar_size_style a s)) = isOverflowing (axis_y s)"
  "raf (set_scrollbar_size_style a s) = raf s"
  "scrollXTicking (set_scrollbar_size_style a s) = scrollXTicking s"
  "scrollYTicking (set_scrollbar_size_style a s) = scrollYTicking s"
  by (cases a; simp add: set_scrollbar_size_style_def Let_def ax_map_def split: option.splits)+

lemma recalculate_flags [simp]:
  "raf (recalculate g s) = raf s"
  "scrollXTicking (recalculate g s) = scrollXTicking s"
  "scrollYTicking (recalculate g s) = scrollYTicking s"
  by (simp_all add: recalculate_def measureStep_def Let_def ax_map_def)

section \<open>C7: hidden overflow\<close>

text \<open>
  C7, as stated, fails. \<open>initDOM\<close> on a document without the height-auto observer element
  succeeds; \<open>recalculate\<close> then returns at its guard, and both axes keep the
  \<open>isOverflowing\<close> the constructor gave them, true, although the computed overflow of
  both is \<^verbatim>\<open>hidden\<close>.
\<close>

theorem recalculate_guard_keeps_overflowing:
  "initDOM noObserver (construct emptyElem defaultOptions defaultClassNames None)
     = Inr (mounted\<lparr>heightAutoObserverEl := None\<rparr>)
   \<and> cs_overflowX hiddenBoth = ''hidden'' \<and> cs_overflowY hiddenBoth = ''hidden''
   \<and> isOverflowing (axis_x (recalculate hiddenBoth (mounted\<lparr>heightAutoObserverEl := None\<rparr>)))
   \<and> isOverflowing (axis_y (recalculate hiddenBoth (mounted\<lparr>heightAutoObserverEl := None\<rparr>)))"
  by code_simp

text \<open>
  C7, amended. When one of the four elements \<open>recalculate\<close> requires (height-auto
  observer, content, content wrapper, wrapper) is missing, it returns the state as it is.
  Otherwise, an axis whose computed overflow is \<^verbatim>\<open>hidden\<close> ends with \<open>isOverflowing\<close>
  false, whatever the measured sizes are.
\<close>

theorem recalculate_hidden_not_overflowing:
  "(if heightAutoObserverEl s = None \<or> contentEl s = None \<or> contentWrapperEl s = None
       \<or> wrapperEl s = None
    then recalculate g s = s
    else (cs_overflowX g = ''hidden'' \<longrightarrow> \<not> isOverflowing (axis_x (recalculate g s)))
       \<and> (cs_overflowY g = ''hidden'' \<longrightarrow> \<not> isOverflowing (axis_y (recalculate g s))))"
proof (cases "heightAutoObserverEl s = None \<or> contentEl s = None \<or> contentWrapperEl s = None
       \<or> wrapperEl s = None")
  case True
  then have "recalculate g s = s" by (simp only: recalculate_def if_True)
  with True show ?thesis by (simp only: if_True)
next
  case False
  have "(cs_overflowX g = ''hidden'' \<longrightarrow> \<not> isOverflowing (axis_x (recalculate g s)))
       \<and> (cs_overflowY g = ''hidden'' \<longrightarrow> \<not> isOverflowing (axis_y (recalculate g s)))"
    using False by (auto simp add: recalculate_def measureStep_def Let_def ax_map_def)
  with False show ?thesis by (simp only: if_False)
qed

theorem recalculate_hidden_not_overflowing_witness:
  "content_scrollWidth hiddenBoth > cw_offsetWidth hiddenBoth
   \<and> content_scrollHeight hiddenBoth > cw_offsetHeight hiddenBoth
   \<and> isOverflowing (axis_x mounted) \<and> isOverflowing (axis_y mounted)
   \<and> \<not> isOverflowing (axis_x (recalculate hiddenBoth mounted))
   \<and> \<not> isOverflowing (axis_y (recalculate hiddenBoth mounted))
   \<and> recalculate hiddenBoth (mounted\<lparr>heightAutoObserverEl := None\<rparr>)
       = mounted\<lparr>heightAutoObserverEl := None\<rparr>"
proof -
  have h: "\<not> (heightAutoObserverEl mounted = None \<or> contentEl mounted = None
       \<or> contentWrapperEl mounted = None \<or> wrapperEl mounted = None)"
    by code_simp
  have k: "cs_overflowX hiddenBoth = ''hidden''" "cs_overflowY hiddenBoth = ''hidden''"
    by code_simp+
  have n: "heightAutoObserverEl (mounted\<lparr>heightAutoObserverEl := None\<rparr>) = None
       \<or> contentEl (mounted\<lparr>heightAutoObserverEl := None\<rparr>) = None
       \<or> contentWrapperEl (mounted\<lparr>heightAutoObserverEl := None\<rparr>) = None
       \<or> wrapperEl (mounted\<lparr>heightAutoObserverEl := None\<rparr>) = None"
    by simp
  have m: "content_scrollWidth hiddenBoth > cw_offsetWidth hiddenBoth"
    "content_scrollHeight hiddenBoth > cw_offsetHeight hiddenBoth"
    "isOverflowing (axis_x mounted)" "isOverflowing (axis_y mounted)"
    by code_simp+
  have a: "\<not> isOverflowing (axis_x (recalculate hiddenBoth mounted))
       \<and> \<not> isOverflowing (axis_y (recalculate hiddenBoth mounted))"
    using recalculate_hidden_not_overflowing [of mounted hiddenBoth] k
    by (simp only: h if_False simp_thms)
  have b: "recalculate hiddenBoth (mounted\<lparr>heightAutoObserverEl := None\<rparr>)
       = mounted\<lparr>heightAutoObserverEl := None\<rparr>"
    using recalculate_hidden_not_overflowing
      [of "mounted\<lparr>heightAutoObserverEl := None\<rparr>" hiddenBoth]
    by (simp only: n if_True)
  from a b m show ?thesis by simp
qed

section \<open>C10: the written offset\<close>

text \<open>
  C10. When \<open>positionScrollbar\<close> passes its guard, on the x axis it writes the computed
  handle offset to \<^verbatim>\<open>left\<close> as it is; on the y axis it writes the computed offset to
  \<^verbatim>\<open>top\<close>, except that an offset of 0 is written as 2 pixels.
\<close>

theorem positionScrollbar_written_offset:
  assumes "part_el (scrollbar (ax a s)) \<noteq> None" and "isOverflowing (ax a s)"
    and "contentWrapperEl s \<noteq> None" and "elStyles s"
  shows "(case a of
            X \<Rightarrow> map_option style_left (part_el (scrollbar (axis_x (positionScrollbar X g s))))
                 = Some (Some (Px (computedHandleOffset X g s)))
          | Y \<Rightarrow> map_option style_top (part_el (scrollbar (axis_y (positionScrollbar Y g s))))
                 = Some (Some (Px (if computedHandleOffset Y g s = 0 then 2
                                   else computedHandleOffset Y g s))))"
proof -
  from assms(1) obtain sb where sb: "part_el (scrollbar (ax a s)) = Some sb" by auto
  show ?thesis
    using positionScrollbar_guarded[OF sb assms(2-4), of g]
    by (cases a) (simp_all add: writeOffset_def)
qed

theorem positionScrollbar_written_offset_witness:
  "computedHandleOffset Y atOrigin (recalculate atOrigin mounted) = 0
   \<and> map_option style_top (part_el (scrollbar (axis_y
        (positionScrollbar Y atOrigin (recalculate atOrigin mounted))))) = Some (Some (Px 2))
   \<and> computedHandleOffset X atOrigin (recalculate atOrigin mounted) = 0
   \<and> map_option style_left (part_el (scrollbar (axis_x
        (positionScrollbar X atOrigin (recalculate atOrigin mounted))))) = Some (Some (Px 0))
   \<and> computedHandleOffset Y scenario (recalculate scenario mounted) = 79
   \<and> map_option style_top (part_el (scrollbar (axis_y
        (positionScrollbar Y scenario (recalculate scenario mounted))))) = Some (Some (Px 79))"
proof -
  have o: "part_el (scrollbar (ax Y (recalculate atOrigin mounted))) \<noteq> None"
    "isOverflowing (ax Y (recalculate atOrigin mounted))"
    "part_el (scrollbar (ax X (recalculate atOrigin mounted))) \<noteq> None"
    "isOverflowing (ax X (recalculate atOrigin mounted))"
    "contentWrapperEl (recalculate atOrigin mounted) \<noteq> None"
    "elStyles (recalculate atOrigin mounted)"
    by code_simp+
  have c: "part_el (scrollbar (ax Y (recalculate scenario mounted))) \<noteq> None"
    "isOverflowing (ax Y (recalculate scenario mounted))"
    "contentWrapperEl (recalculate scenario mounted) \<noteq> None"
    "elStyles (recalculate scenario mounted)"
    by code_simp+
  have v: "computedHandleOffset Y atOrigin (recalculate atOrigin mounted) = 0"
    "computedHandleOffset X atOrigin (recalculate atOrigin mounted) = 0"
    "computedHandleOffset Y scenario (recalculate scenario mounted) = 79"
    by code_simp+
  show ?thesis
    using positionScrollbar_written_offset [OF o(1,2,5,6), of atOrigin]
      positionScrollbar_written_offset [OF o(3,4,5,6), of atOrigin]
      positionScrollbar_written_offset [OF c, of scenario]
    by (simp add: v)
qed



section \<open>C2: the sign of the scroll position written by a drag\<close>

text \<open>
  C2, as stated, fails. With the profile whose \<open>isScrollingToNegative\<close> is true, a drag
  of the horizontal handle in a right-to-left host computes the scroll position 400 and
  writes -400: the position is negated although the flag is true. With the flag false the
  computed 400 is written as it is.
\<close>

theorem drag_negates_when_scrolling_to_negative:
  "draggedAxis (rtlDragging rtlFixture True True) = Some X
   \<and> isRtl (rtlDragging rtlFixture True True)
   \<and> toNegative (fst (getRtlHelpers rtlFixture (rtlDragging rtlFixture True True)))
   \<and> dragScrollPos X (mouseAt ''mousemove'' 100 195) rtlFixture
        (rtlDragging rtlFixture True True) = Fin 400
   \<and> map_option scrollLeft (contentWrapperEl
        (drag (mouseAt ''mousemove'' 100 195) rtlFixture (rtlDragging rtlFixture True True)))
       = Some (Some (Fin (- 400)))
   \<and> draggedAxis (rtlDragging rtlPositive True False) = Some X
   \<and> isRtl (rtlDragging rtlPositive True False)
   \<and> \<not> toNegative (fst (getRtlHelpers rtlPositive (rtlDragging rtlPositive True False)))
   \<and> dragScrollPos X (mouseAt ''mousemove'' 100 195) rtlPositive
        (rtlDragging rtlPositive True False) = Fin 400
   \<and> map_option scrollLeft (contentWrapperEl
        (drag (mouseAt ''mousemove'' 100 195) rtlPositive (rtlDragging rtlPositive True False)))
       = Some (Some (Fin 400))"
  by code_simp

text \<open>
  C2, amended. During a drag on the x axis of a right-to-left host, the handler writes the
  negation of the computed scroll position if and only if the profile's
  \<open>isScrollingToNegative\<close> is true; with the flag false, or without a profile, it writes
  the computed position unchanged.
\<close>

theorem drag_rtl_x_sign:
  assumes "draggedAxis s = Some X" and "isRtl s" and "contentWrapperEl s \<noteq> None"
  shows "map_option scrollLeft (contentWrapperEl (drag e g s)) =
     Some (Some (if toNegative (fst (getRtlHelpers g s)) then jsneg (dragScrollPos X e g s)
                 else dragScrollPos X e g s))"
proof -
  from assms(3) obtain cw where cw: "contentWrapperEl s = Some cw" by auto
  show ?thesis
    using assms(1,2) cw
    by (simp add: drag_def Let_def split_beta dragScrollPos_def dragPercent_def
        set_scrollOffsetAttr_def)
qed

theorem drag_rtl_x_sign_witness:
  "map_option scrollLeft (contentWrapperEl
      (drag (mouseAt ''mousemove'' 100 195) rtlFixture (rtlDragging rtlFixture True True)))
     = Some (Some (jsneg (Fin 400)))
   \<and> map_option scrollLeft (contentWrapperEl
      (drag (mouseAt ''mousemove'' 100 195) rtlPositive (rtlDragging rtlPositive True False)))
     = Some (Some (Fin 400))"
proof -
  have n: "draggedAxis (rtlDragging rtlFixture True True) = Some X"
    "isRtl (rtlDragging rtlFixture True True)"
    "contentWrapperEl (rtlDragging rtlFixture True True) \<noteq> None"
    "toNegative (fst (getRtlHelpers rtlFixture (rtlDragging rtlFixture True True)))"
    "dragScrollPos X (mouseAt ''mousemove'' 100 195) rtlFixture
        (rtlDragging rtlFixture True True) = Fin 400"
    by code_simp+
  have p: "draggedAxis (rtlDragging rtlPositive True False) = Some X"
    "isRtl (rtlDragging rtlPositive True False)"
    "contentWrapperEl (rtlDragging rtlPositive True False) \<noteq> None"
    "\<not> toNegative (fst (getRtlHelpers rtlPositive (rtlDragging rtlPositive True False)))"
    "dragScrollPos X (mouseAt ''mousemove'' 100 195) rtlPositive
        (rtlDragging rtlPositive True False) = Fin 400"
    by code_simp+
  show ?thesis
    using drag_rtl_x_sign [OF n(1-3), of "mouseAt ''mousemove'' 100 195" rtlFixture]
      drag_rtl_x_sign [OF p(1-3), of "mouseAt ''mousemove'' 100 195" rtlPositive]
    by (simp only: n(4,5) p(4,5) if_True if_False)
qed

section \<open>C3: drag sessions\<close>

lemma isWithinBounds_axes [simp]:
  "isWithinBounds r (s\<lparr>axis_x := px\<rparr>) = isWithinBounds r s"
  "isWithinBounds r (s\<lparr>axis_y := py\<rparr>) = isWithinBounds r s"
  "isWithinBounds r (onDragStart e a s) = isWithinBounds r s"
  "isWithinBounds r (measureTracks g s) = isWithinBounds r s"
  "isWithinBounds r (measureHandle a g s) = isWithinBounds r s"
  by (cases a; simp add: isWithinBounds_def onDragStart_def Let_def ax_map_def measureTracks_def
      measureHandle_def)+

lemma measure_flags [simp]:
  "isOverflowing (axis_x (measureTracks g s)) = isOverflowing (axis_x s)"
  "isOverflowing (axis_y (measureTracks g s)) = isOverflowing (axis_y s)"
  "forceVisible (axis_x (measureTracks g s)) = forceVisible (axis_x s)"
  "forceVisible (axis_y (measureTracks g s)) = forceVisible (axis_y s)"
  "draggedAxis (measureTracks g s) = draggedAxis s"
  "isDragging (measureTracks g s) = isDragging s"
  "dragOffset (axis_x (measureTracks g s)) = dragOffset (axis_x s)"
  "dragOffset (axis_y (measureTracks g s)) = dragOffset (axis_y s)"
  by (simp_all add: measureTracks_def Let_def)

lemma measureHandle_fields [simp]:
  "draggedAxis (measureHandle a g s) = draggedAxis s"
  "isDragging (measureHandle a g s) = isDragging s"
  "dragOffset (axis_x (measureHandle a g s)) = dragOffset (axis_x s)"
  "dragOffset (axis_y (measureHandle a g s)) = dragOffset (axis_y s)"
  "part_rect (scrollbar (axis_x (measureHandle X g s))) = Some (scrollbarX_rect g)"
  "part_rect (scrollbar (axis_y (measureHandle Y g s))) = Some (scrollbarY_rect g)"
  by (cases a; simp add: measureHandle_def ax_map_def scrollbar_rect_def)+

lemma onDragStart_draggedAxis [simp]: "draggedAxis (onDragStart e a s) = Some a"
  by (cases a) (simp_all add: onDragStart_def Let_def ax_map_def)

lemma onDragStart_isDragging [simp]: "isDragging (onDragStart e a s)"
  by (cases a) (simp_all add: onDragStart_def Let_def ax_map_def)

lemma onDragStart_dragOffset [simp]:
  "dragOffset (axis_x (onDragStart e X s)) =
     pageX e - (case part_rect (scrollbar (axis_x s)) of None \<Rightarrow> 0 | Some r \<Rightarrow> rect_left r)"
  "dragOffset (axis_y (onDragStart e Y s)) =
     pageY e - (case part_rect (scrollbar (axis_y s)) of None \<Rightarrow> 0 | Some r \<Rightarrow> rect_top r)"
  "dragOffset (axis_y (onDragStart e X s)) = dragOffset (axis_y s)"
  "dragOffset (axis_x (onDragStart e Y s)) = dragOffset (axis_x s)"
  by (simp_all add: onDragStart_def Let_def ax_map_def eventOffsetOf_def rect_offset_def
      split: option.splits)



lemma onPointerEvent_pointerdown:
  assumes "part_el (track (axis_x s)) \<noteq> None \<and> part_el (track (axis_y s)) \<noteq> None
         \<and> part_el (scrollbar (axis_x s)) \<noteq> None \<and> part_el (scrollbar (axis_y s)) \<noteq> None
         \<and> ev_type e = ''pointerdown'' \<and> pointerType e \<noteq> ''touch''"
  shows "onPointerEvent e g s =
     (let s2 = measureTracks g s;
          s3 = (if handleHit X g s then onDragStart e X (measureHandle X g s2)
                else if trackHit X g s then measureHandle X g s2 else s2)
      in if handleHit Y g s then onDragStart e Y (measureHandle Y g s3)
         else if trackHit Y g s then measureHandle Y g s3 else s3)"
proof -
  have g: "\<not> (part_el (track (axis_x s)) = None \<or> part_el (track (axis_y s)) = None \<or>
         part_el (scrollbar (axis_x s)) = None \<or> part_el (scrollbar (axis_y s)) = None)"
    and pd: "ev_type e = ''pointerdown'' \<and> pointerType e \<noteq> ''touch''"
    using assms by auto
  show ?thesis
    unfolding onPointerEvent_def handleHit_def trackHit_def
    by (simp only: g pd if_True if_False Let_def isWithinBounds_axes measure_flags ax_simps
        track_rect_def scrollbar_rect_def axis.case)
      (cases "isOverflowing (axis_x s) \<or> forceVisible (axis_x s)";
        cases "isOverflowing (axis_y s) \<or> forceVisible (axis_y s)";
        cases "isWithinBounds (trackX_rect g) s"; cases "isWithinBounds (trackY_rect g) s";
        cases "isWithinBounds (scrollbarX_rect g) s"; cases "isWithinBounds (scrollbarY_rect g) s";
        simp only: if_True if_False simp_thms isWithinBounds_axes)
qed


lemma onPointerEvent_other:
  assumes "\<not> (part_el (track (axis_x s)) \<noteq> None \<and> part_el (track (axis_y s)) \<noteq> None
         \<and> part_el (scrollbar (axis_x s)) \<noteq> None \<and> part_el (scrollbar (axis_y s)) \<noteq> None
         \<and> ev_type e = ''pointerdown'' \<and> pointerType e \<noteq> ''touch'')"
  shows "onPointerEvent e g s = s \<or> onPointerEvent e g s = measureTracks g s"
proof (cases "part_el (track (axis_x s)) = None \<or> part_el (track (axis_y s)) = None \<or>
         part_el (scrollbar (axis_x s)) = None \<or> part_el (scrollbar (axis_y s)) = None")
  case True
  then have "onPointerEvent e g s = s" by (simp only: onPointerEvent_def if_True)
  then show ?thesis by simp
next
  case False
  with assms have npd: "(ev_type e = ''pointerdown'' \<and> pointerType e \<noteq> ''touch'') = False"
    by auto
  have "onPointerEvent e g s = measureTracks g s"
    unfolding onPointerEvent_def by (simp only: False npd if_False Let_def if_cancel)
  then show ?thesis by simp
qed

text \<open>
  C3, amended. The controller records one dragged axis, but a drag start is not blocked by
  an existing session. On a pointer-down that is not a touch, with the four track and
  handle elements present, the handler measures the tracks and then, for x first and y
  second, measures the handle of each axis whose shown track contains the pointer and
  calls \<open>onDragStart\<close> for it when the handle contains the pointer too. So each axis
  whose handle is hit gets its drag offset captured, the dragged axis ends as y if the y
  handle is hit, as x if only the x handle is hit, and is unchanged otherwise, and a
  session is open as soon as one handle is hit. Any other pointer event leaves the
  dragged axis, the drag offsets and the session flag unchanged.
\<close>

theorem onPointerEvent_drag_starts:
  "(if part_el (track (axis_x s)) \<noteq> None \<and> part_el (track (axis_y s)) \<noteq> None
       \<and> part_el (scrollbar (axis_x s)) \<noteq> None \<and> part_el (scrollbar (axis_y s)) \<noteq> None
       \<and> ev_type e = ''pointerdown'' \<and> pointerType e \<noteq> ''touch''
    then onPointerEvent e g s =
           (let s2 = measureTracks g s;
                s3 = (if handleHit X g s then onDragStart e X (measureHandle X g s2)
                      else if trackHit X g s then measureHandle X g s2 else s2)
            in if handleHit Y g s then onDragStart e Y (measureHandle Y g s3)
               else if trackHit Y g s then measureHandle Y g s3 else s3)
       \<and> draggedAxis (onPointerEvent e g s) =
           (if handleHit Y g s then Some Y else if handleHit X g s then Some X
            else draggedAxis s)
       \<and> dragOffset (axis_x (onPointerEvent e g s)) =
           (if handleHit X g s then pageX e - rect_left (scrollbarX_rect g)
            else dragOffset (axis_x s))
       \<and> dragOffset (axis_y (onPointerEvent e g s)) =
           (if handleHit Y g s then pageY e - rect_top (scrollbarY_rect g)
            else dragOffset (axis_y s))
       \<and> isDragging (onPointerEvent e g s) = (handleHit X g s \<or> handleHit Y g s \<or> isDragging s)
    else draggedAxis (onPointerEvent e g s) = draggedAxis s
       \<and> dragOffset (axis_x (onPointerEvent e g s)) = dragOffset (axis_x s)
       \<and> dragOffset (axis_y (onPointerEvent e g s)) = dragOffset (axis_y s)
       \<and> isDragging (onPointerEvent e g s) = isDragging s)"
proof (cases "part_el (track (axis_x s)) \<noteq> None \<and> part_el (track (axis_y s)) \<noteq> None
       \<and> part_el (scrollbar (axis_x s)) \<noteq> None \<and> part_el (scrollbar (axis_y s)) \<noteq> None
       \<and> ev_type e = ''pointerdown'' \<and> pointerType e \<noteq> ''touch''")
  case True
  note eq = onPointerEvent_pointerdown [OF True, of g]
  have rest: "draggedAxis (onPointerEvent e g s) =
           (if handleHit Y g s then Some Y else if handleHit X g s then Some X
            else draggedAxis s)
       \<and> dragOffset (axis_x (onPointerEvent e g s)) =
           (if handleHit X g s then pageX e - rect_left (scrollbarX_rect g)
            else dragOffset (axis_x s))
       \<and> dragOffset (axis_y (onPointerEvent e g s)) =
           (if handleHit Y g s then pageY e - rect_top (scrollbarY_rect g)
            else dragOffset (axis_y s))
       \<and> isDragging (onPointerEvent e g s) = (handleHit X g s \<or> handleHit Y g s \<or> isDragging s)"
    unfolding eq
    by (cases "handleHit X g s"; cases "handleHit Y g s"; cases "trackHit X g s";
        cases "trackHit Y g s"; simp add: Let_def)
  from eq rest True show ?thesis by (simp only: if_True simp_thms)
next
  case False
  from onPointerEvent_other [OF False, of g]
  have "draggedAxis (onPointerEvent e g s) = draggedAxis s
       \<and> dragOffset (axis_x (onPointerEvent e g s)) = dragOffset (axis_x s)
       \<and> dragOffset (axis_y (onPointerEvent e g s)) = dragOffset (axis_y s)
       \<and> isDragging (onPointerEvent e g s) = isDragging s"
    by (elim disjE) simp_all
  with False show ?thesis by (simp only: if_False)
qed

theorem onPointerEvent_drag_starts_witness:
  "dragOffset (axis_x (onPointerEvent (mouseAt ''pointerdown'' 195 195) corner overCorner)) = 35
   \<and> dragOffset (axis_y (onPointerEvent (mouseAt ''pointerdown'' 195 195) corner overCorner)) = 35
   \<and> draggedAxis (onPointerEvent (mouseAt ''pointerdown'' 195 195) corner overCorner) = Some Y
   \<and> isDragging (onPointerEvent (mouseAt ''pointerdown'' 195 195) corner overCorner)
   \<and> draggedAxis (onPointerEvent (mouseAt ''pointerup'' 195 195) corner overCorner) = None
   \<and> \<not> isDragging (onPointerEvent (mouseAt ''pointerup'' 195 195) corner overCorner)"
proof -
  have c: "part_el (track (axis_x overCorner)) \<noteq> None \<and> part_el (track (axis_y overCorner)) \<noteq> None
      \<and> part_el (scrollbar (axis_x overCorner)) \<noteq> None
      \<and> part_el (scrollbar (axis_y overCorner)) \<noteq> None
      \<and> ev_type (mouseAt ''pointerdown'' 195 195) = ''pointerdown''
      \<and> pointerType (mouseAt ''pointerdown'' 195 195) \<noteq> ''touch''"
    by code_simp
  have h: "handleHit Y corner overCorner" "handleHit X corner overCorner"
    "pageX (mouseAt ''pointerdown'' 195 195) - rect_left (scrollbarX_rect corner) = 35"
    "pageY (mouseAt ''pointerdown'' 195 195) - rect_top (scrollbarY_rect corner) = 35"
    by code_simp+
  have u: "\<not> (part_el (track (axis_x overCorner)) \<noteq> None \<and> part_el (track (axis_y overCorner)) \<noteq> None
      \<and> part_el (scrollbar (axis_x overCorner)) \<noteq> None
      \<and> part_el (scrollbar (axis_y overCorner)) \<noteq> None
      \<and> ev_type (mouseAt ''pointerup'' 195 195) = ''pointerdown''
      \<and> pointerType (mouseAt ''pointerup'' 195 195) \<noteq> ''touch'')"
    by code_simp
  have v: "draggedAxis overCorner = None" "\<not> isDragging overCorner"
    by code_simp+
  have d: "draggedAxis (onPointerEvent (mouseAt ''pointerdown'' 195 195) corner overCorner) = Some Y
     \<and> dragOffset (axis_x (onPointerEvent (mouseAt ''pointerdown'' 195 195) corner overCorner)) = 35
     \<and> dragOffset (axis_y (onPointerEvent (mouseAt ''pointerdown'' 195 195) corner overCorner)) = 35
     \<and> isDragging (onPointerEvent (mouseAt ''pointerdown'' 195 195) corner overCorner)"
    using onPointerEvent_drag_starts [of overCorner "mouseAt ''pointerdown'' 195 195" corner]
    unfolding if_P [OF c] by (simp add: h)
  have n: "draggedAxis (onPointerEvent (mouseAt ''pointerup'' 195 195) corner overCorner) = None
     \<and> \<not> isDragging (onPointerEvent (mouseAt ''pointerup'' 195 195) corner overCorner)"
    using onPointerEvent_drag_starts [of overCorner "mouseAt ''pointerup'' 195 195" corner]
    unfolding if_not_P [OF u] by (simp add: v)
  from d n show ?thesis by simp
qed


text \<open>
  C3, as stated, fails. With both handles in the corner and the pointer over both, one
  pointer-down starts a drag on x and then on y: both drag offsets are captured and the
  dragged axis ends as y. And while the horizontal handle is being dragged, a pointer-down
  over the vertical handle starts a drag on y.
\<close>

theorem pointerdown_starts_both_axes:
  "draggedAxis overCorner = None \<and> \<not> isDragging overCorner
   \<and> dragOffset (axis_x overCorner) = 0 \<and> dragOffset (axis_y overCorner) = 0
   \<and> handleHit X corner overCorner \<and> handleHit Y corner overCorner
   \<and> dragOffset (axis_x (onPointerEvent (mouseAt ''pointerdown'' 195 195) corner overCorner)) = 35
   \<and> dragOffset (axis_y (onPointerEvent (mouseAt ''pointerdown'' 195 195) corner overCorner)) = 35
   \<and> draggedAxis (onPointerEvent (mouseAt ''pointerdown'' 195 195) corner overCorner) = Some Y
   \<and> isDragging (onPointerEvent (mouseAt ''pointerdown'' 195 195) corner overCorner)
   \<and> isDragging draggingXOverY \<and> draggedAxis draggingXOverY = Some X
   \<and> dragListeners draggingXOverY
   \<and> draggedAxis (onPointerEvent (mouseAt ''pointerdown'' 195 170) corner draggingXOverY) = Some Y
   \<and> dragOffset (axis_y (onPointerEvent (mouseAt ''pointerdown'' 195 170) corner draggingXOverY))
       = 10"
  by code_simp



section \<open>What the handlers keep\<close>

lemma missing_update [simp]:
  "missing (s\<lparr>el := v0\<rparr>) = missing s"
  "missing (s\<lparr>options := v1\<rparr>) = missing s"
  "missing (s\<lparr>classNames := v2\<rparr>) = missing s"
  "missing (s\<lparr>draggedAxis := v3\<rparr>) = missing s"
  "missing (s\<lparr>removePreventClickId := v4\<rparr>) = missing s"
  "missing (s\<lparr>isScrolling := v5\<rparr>) = missing s"
  "missing (s\<lparr>isMouseEntering := v6\<rparr>) = missing s"
  "missing (s\<lparr>isDragging := v7\<rparr>) = missing s"
  "missing (s\<lparr>scrollXTicking := v8\<rparr>) = missing s"
  "missing (s\<lparr>scrollYTicking := v9\<rparr>) = missing s"
  "missing (s\<lparr>wrapperEl := v10\<rparr>) = missing s"
  "missing (s\<lparr>contentWrapperEl := v11\<rparr>) = missing s"
  "missing (s\<lparr>contentEl := v12\<rparr>) = missing s"
  "missing (s\<lparr>placeholderEl := v13\<rparr>) = missing s"
  "missing (s\<lparr>heightAutoObserverEl := v14\<rparr>) = missing s"
  "missing (s\<lparr>rtlHelpers := v15\<rparr>) = missing s"
  "missing (s\<lparr>scrollbarWidth := v16\<rparr>) = missing s"
  "missing (s\<lparr>elStyles := v17\<rparr>) = missing s"
  "missing (s\<lparr>isRtl := v18\<rparr>) = missing s"
  "missing (s\<lparr>mouseX := v19\<rparr>) = missing s"
  "missing (s\<lparr>mouseY := v20\<rparr>) = missing s"
  "missing (s\<lparr>static_rtlHelpers := v21\<rparr>) = missing s"
  "missing (s\<lparr>raf := v22\<rparr>) = missing s"
  "missing (s\<lparr>stopScrollingPending := v23\<rparr>) = missing s"
  "missing (s\<lparr>mouseEnteredPending := v24\<rparr>) = missing s"
  "missing (s\<lparr>dragListeners := v25\<rparr>) = missing s"
  "missing (s\<lparr>clickListeners := v26\<rparr>) = missing s"
  by (simp_all add: missing_def)

lemma getRtlHelpers_missing [simp]: "missing (snd (getRtlHelpers g s)) = missing s"
  by (simp add: getRtlHelpers_def split: option.splits)

lemma positionScrollbar_missing [simp]: "missing (positionScrollbar a g s) = missing s"
  by (cases a; simp add: positionScrollbar_def missing_def Let_def split_beta ax_map_def
      split: option.splits)

lemma toggleTrackVisibility_missing [simp]: "missing (toggleTrackVisibility a s) = missing s"
  by (cases a; simp add: toggleTrackVisibility_def missing_def Let_def ax_map_def
      split: option.splits)

lemma set_scrollbar_size_style_missing [simp]: "missing (set_scrollbar_size_style a s) = missing s"
  by (cases a; simp add: set_scrollbar_size_style_def missing_def Let_def ax_map_def
      split: option.splits)

lemma recalculate_missing [simp]: "missing (recalculate g s) = missing s"
  by (simp add: recalculate_def measureStep_def Let_def) (simp add: missing_def ax_map_def)

lemma showScrollbar_keeps [simp]:
  "raf (showScrollbar a s) = raf s"
  "scrollXTicking (showScrollbar a s) = scrollXTicking s"
  "scrollYTicking (showScrollbar a s) = scrollYTicking s"
  "missing (showScrollbar a s) = missing s"
  by (cases a; simp add: showScrollbar_def ax_map_def missing_def addClasses_def)+

lemma hideScrollbar_keeps [simp]:
  "raf (hideScrollbar a s) = raf s"
  "scrollXTicking (hideScrollbar a s) = scrollXTicking s"
  "scrollYTicking (hideScrollbar a s) = scrollYTicking s"
  "missing (hideScrollbar a s) = missing s"
  by (cases a; simp add: hideScrollbar_def ax_map_def missing_def removeClasses_def)+

lemma onStopScrolling_body_keeps [simp]:
  "raf (onStopScrolling_body s) = raf s"
  "scrollXTicking (onStopScrolling_body s) = scrollXTicking s"
  "scrollYTicking (onStopScrolling_body s) = scrollYTicking s"
  "missing (onStopScrolling_body s) = missing s"
  by (simp_all add: onStopScrolling_body_def Let_def)

lemma onMouseEnter_keeps [simp]:
  "raf (onMouseEnter s) = raf s"
  "scrollXTicking (onMouseEnter s) = scrollXTicking s"
  "scrollYTicking (onMouseEnter s) = scrollYTicking s"
  "missing (onMouseEnter s) = missing s"
  by (simp_all add: onMouseEnter_def Let_def)

lemma onMouseEntered_body_keeps [simp]:
  "raf (onMouseEntered_body s) = raf s"
  "scrollXTicking (onMouseEntered_body s) = scrollXTicking s"
  "scrollYTicking (onMouseEntered_body s) = scrollYTicking s"
  "missing (onMouseEntered_body s) = missing s"
  by (simp_all add: onMouseEntered_body_def Let_def)

lemma onMouseMoveForAxis_keeps [simp]:
  "raf (onMouseMoveForAxis a g s) = raf s"
  "scrollXTicking (onMouseMoveForAxis a g s) = scrollXTicking s"
  "scrollYTicking (onMouseMoveForAxis a g s) = scrollYTicking s"
  "missing (onMouseMoveForAxis a g s) = missing s"
  by (cases a; simp add: onMouseMoveForAxis_def ax_map_def missing_def)+

lemma onMouseMove_body_keeps [simp]:
  "raf (onMouseMove_body e g s) = raf s"
  "scrollXTicking (onMouseMove_body e g s) = scrollXTicking s"
  "scrollYTicking (onMouseMove_body e g s) = scrollYTicking s"
  "missing (onMouseMove_body e g s) = missing s"
  by (simp_all add: onMouseMove_body_def Let_def)

lemma onMouseLeave_keeps [simp]:
  "raf (onMouseLeave s) = raf s"
  "scrollXTicking (onMouseLeave s) = scrollXTicking s"
  "scrollYTicking (onMouseLeave s) = scrollYTicking s"
  "missing (onMouseLeave s) = missing s"
  by (simp_all add: onMouseLeave_def missing_def)

lemma onDragStart_keeps [simp]:
  "raf (onDragStart e a s) = raf s"
  "scrollXTicking (onDragStart e a s) = scrollXTicking s"
  "scrollYTicking (onDragStart e a s) = scrollYTicking s"
  "missing (onDragStart e a s) = missing s"
  by (cases a; simp add: onDragStart_def Let_def ax_map_def missing_def)+

lemma missing_axis_update [simp]:
  "part_el (track p) = part_el (track (axis_x s)) \<Longrightarrow>
   part_el (scrollbar p) = part_el (scrollbar (axis_x s)) \<Longrightarrow>
   missing (s\<lparr>axis_x := p\<rparr>) = missing s"
  "part_el (track q) = part_el (track (axis_y s)) \<Longrightarrow>
   part_el (scrollbar q) = part_el (scrollbar (axis_y s)) \<Longrightarrow>
   missing (s\<lparr>axis_y := q\<rparr>) = missing s"
  by (simp_all add: missing_def)

lemma measureTracks_keeps [simp]:
  "raf (measureTracks g s) = raf s"
  "scrollXTicking (measureTracks g s) = scrollXTicking s"
  "scrollYTicking (measureTracks g s) = scrollYTicking s"
  "missing (measureTracks g s) = missing s"
  by (simp_all add: measureTracks_def Let_def)

lemma measureHandle_keeps [simp]:
  "raf (measureHandle a g s) = raf s"
  "scrollXTicking (measureHandle a g s) = scrollXTicking s"
  "scrollYTicking (measureHandle a g s) = scrollYTicking s"
  "missing (measureHandle a g s) = missing s"
  by (cases a; simp add: measureHandle_def ax_map_def)+

lemma onPointerEvent_keeps [simp]:
  "raf (onPointerEvent e g s) = raf s"
  "scrollXTicking (onPointerEvent e g s) = scrollXTicking s"
  "scrollYTicking (onPointerEvent e g s) = scrollYTicking s"
  "missing (onPointerEvent e g s) = missing s"
  by (simp_all add: onPointerEvent_def Let_def)

lemma drag_keeps [simp]:
  "raf (drag e g s) = raf s"
  "scrollXTicking (drag e g s) = scrollXTicking s"
  "scrollYTicking (drag e g s) = scrollYTicking s"
  "missing (drag e g s) = missing s"
  by (simp_all add: drag_def Let_def split_beta missing_def split: option.splits)

lemma onEndDrag_keeps [simp]:
  "raf (onEndDrag s) = raf s"
  "scrollXTicking (onEndDrag s) = scrollXTicking s"
  "scrollYTicking (onEndDrag s) = scrollYTicking s"
  "missing (onEndDrag s) = missing s"
  by (simp_all add: onEndDrag_def Let_def missing_def)

lemma removePreventClick_keeps [simp]:
  "raf (removePreventClick s) = raf s"
  "scrollXTicking (removePreventClick s) = scrollXTicking s"
  "scrollYTicking (removePreventClick s) = scrollYTicking s"
  "missing (removePreventClick s) = missing s"
  by (simp_all add: removePreventClick_def missing_def)

lemma onScroll_missing [simp]: "missing (onScroll s) = missing s"
  by (simp add: onScroll_def Let_def)

lemma scroll_callbacks_missing [simp]:
  "missing (scrollX g s) = missing s" "missing (scrollY g s) = missing s"
  by (simp_all add: scrollX_def scrollY_def Let_def)

lemma runCallbacks_missing [simp]: "missing (runCallbacks g cs s) = missing s"
proof (induction cs arbitrary: s)
  case Nil
  show ?case by simp
next
  case (Cons c cs)
  show ?case by (cases c) (simp_all add: Cons.IH)
qed

lemma step_missing [simp]: "missing (step e s) = missing s"
  by (cases e) simp_all

lemma run_missing [simp]: "missing (run evs s) = missing s"
  by (induction evs arbitrary: s) simp_all


section \<open>C4: a missing track or handle\<close>

lemma initDOM_handle_in_track:
  assumes "initDOM d c = Inr s0"
  shows "(part_el (track (axis_x s0)) = None \<longrightarrow> part_el (scrollbar (axis_x s0)) = None)
       \<and> (part_el (track (axis_y s0)) = None \<longrightarrow> part_el (scrollbar (axis_y s0)) = None)"
  using assms
  by (auto simp add: initDOM_def Let_def addClasses_def split: option.splits)

text \<open>
  C4. \<open>initDOM\<close> looks for the handle of an axis inside its track, so a widget without
  the track has no handle either, and no handler changes which of these elements exist.
  In every state the widget reaches after \<open>initDOM\<close>, if the track or the handle of an
  axis is missing, then positioning the handle, toggling the track visibility, measuring the
  rectangles and a pointer event (the only caller of \<open>onDragStart\<close>) leave the state as it
  is: nothing is mutated and no style is written. None of these paths has a throwing
  operation, so the model gives them no error result.
\<close>

theorem absent_part_noop:
  assumes "initDOM d c = Inr s0"
    and "part_el (track (ax a (run evs s0))) = None
         \<or> part_el (scrollbar (ax a (run evs s0))) = None"
  shows "positionScrollbar a g (run evs s0) = run evs s0
       \<and> toggleTrackVisibility a (run evs s0) = run evs s0
       \<and> onMouseMoveForAxis a g (run evs s0) = run evs s0
       \<and> onPointerEvent e g (run evs s0) = run evs s0"
proof -
  let ?s = "run evs s0"
  have "missing ?s = missing s0" by simp
  with initDOM_handle_in_track [OF assms(1)]
  have inv: "(part_el (track (axis_x ?s)) = None \<longrightarrow> part_el (scrollbar (axis_x ?s)) = None)
       \<and> (part_el (track (axis_y ?s)) = None \<longrightarrow> part_el (scrollbar (axis_y ?s)) = None)"
    by (simp add: missing_def)
  from assms(2) inv have sb: "part_el (scrollbar (ax a ?s)) = None"
    by (cases a) auto
  have 1: "positionScrollbar a g ?s = ?s"
    using sb by (intro positionScrollbar_unguarded) simp
  have 2: "toggleTrackVisibility a ?s = ?s"
    using sb by (simp add: toggleTrackVisibility_def split: option.splits)
  have 3: "onPointerEvent e g ?s = ?s"
    using sb by (cases a) (simp_all add: onPointerEvent_def)
  have 4: "onMouseMoveForAxis a g ?s = ?s"
    using sb by (simp add: onMouseMoveForAxis_def)
  from 1 2 3 4 show ?thesis by simp
qed

theorem absent_part_noop_witness:
  "part_el (track (ax X (run [EvObserver, EvFrame corner,
        EvMouseMove (mouseAt ''mousemove'' 195 195) corner, EvScroll]
      (mounted\<lparr>axis_x := newAxis\<rparr>)))) = None
   \<and> positionScrollbar X corner (run [EvObserver, EvFrame corner,
        EvMouseMove (mouseAt ''mousemove'' 195 195) corner, EvScroll]
      (mounted\<lparr>axis_x := newAxis\<rparr>))
     = run [EvObserver, EvFrame corner,
        EvMouseMove (mouseAt ''mousemove'' 195 195) corner, EvScroll]
      (mounted\<lparr>axis_x := newAxis\<rparr>)
   \<and> toggleTrackVisibility X (run [EvObserver, EvFrame corner,
        EvMouseMove (mouseAt ''mousemove'' 195 195) corner, EvScroll]
      (mounted\<lparr>axis_x := newAxis\<rparr>))
     = run [EvObserver, EvFrame corner,
        EvMouseMove (mouseAt ''mousemove'' 195 195) corner, EvScroll]
      (mounted\<lparr>axis_x := newAxis\<rparr>)
   \<and> onPointerEvent (mouseAt ''pointerdown'' 195 195) corner (run [EvObserver, EvFrame corner,
        EvMouseMove (mouseAt ''mousemove'' 195 195) corner, EvScroll]
      (mounted\<lparr>axis_x := newAxis\<rparr>))
     = run [EvObserver, EvFrame corner,
        EvMouseMove (mouseAt ''mousemove'' 195 195) corner, EvScroll]
      (mounted\<lparr>axis_x := newAxis\<rparr>)"
proof -
  have i: "initDOM noTrackX (construct emptyElem defaultOptions defaultClassNames None)
     = Inr (mounted\<lparr>axis_x := newAxis\<rparr>)"
    by code_simp
  have m: "part_el (track (ax X (run [EvObserver, EvFrame corner,
        EvMouseMove (mouseAt ''mousemove'' 195 195) corner, EvScroll]
      (mounted\<lparr>axis_x := newAxis\<rparr>)))) = None"
    by code_simp
  show ?thesis
    using absent_part_noop [OF i disjI1 [OF m], of corner "mouseAt ''pointerdown'' 195 195"] m
    by simp
qed


section \<open>C9: one reposition per axis and frame\<close>

lemma scrollX_keeps [simp]:
  "raf (scrollX g s) = raf s" "scrollXTicking (scrollX g s) = False"
  "scrollYTicking (scrollX g s) = scrollYTicking s"
  by (simp_all add: scrollX_def Let_def)

lemma scrollY_keeps [simp]:
  "raf (scrollY g s) = raf s" "scrollYTicking (scrollY g s) = False"
  "scrollXTicking (scrollY g s) = scrollXTicking s"
  by (simp_all add: scrollY_def Let_def)

lemma onScroll_raf:
  "raf (onScroll s) = raf s @ (if scrollXTicking s then [] else [ScrollX])
                            @ (if scrollYTicking s then [] else [ScrollY])"
  "scrollXTicking (onScroll s)" "scrollYTicking (onScroll s)"
  by (simp_all add: onScroll_def Let_def)

lemma runCallbacks_flags:
  "raf (runCallbacks g cs s) = raf s"
  "scrollXTicking (runCallbacks g cs s) = (scrollXTicking s \<and> ScrollX \<notin> set cs)"
  "scrollYTicking (runCallbacks g cs s) = (scrollYTicking s \<and> ScrollY \<notin> set cs)"
proof (induction cs arbitrary: s)
  case Nil
  { case 1 show ?case by simp }
  { case 2 show ?case by simp }
  { case 3 show ?case by simp }
next
  case (Cons c cs)
  { case 1 show ?case by (cases c) (simp_all add: Cons.IH) }
  { case 2 show ?case by (cases c) (auto simp add: Cons.IH) }
  { case 3 show ?case by (cases c) (auto simp add: Cons.IH) }
qed

lemma tickingInv_step: "tickingInv s \<Longrightarrow> tickingInv (step e s)"
proof (cases e)
  case EvScroll
  assume "tickingInv s"
  then show ?thesis
    unfolding EvScroll by (auto simp add: tickingInv_def onScroll_raf count_list_0_iff)
next
  case (EvFrame g)
  assume "tickingInv s"
  then show ?thesis
    unfolding EvFrame by (auto simp add: tickingInv_def runCallbacks_flags)
qed (simp_all add: tickingInv_def)

lemma tickingInv_run: "tickingInv s \<Longrightarrow> tickingInv (run evs s)"
  by (induction evs arbitrary: s) (simp_all add: tickingInv_step)

text \<open>
  C9. Start from a state with an empty frame queue and both pending flags clear, as the
  constructor leaves them, and let any sequence of events happen. Then the queue holds at
  most one reposition callback per axis, and the flag of an axis is set exactly when its
  callback is queued. A scroll event queues the callback of an axis only when its flag is
  clear and leaves both flags set; the callback repositions the handle of an overflowing
  axis and then clears its flag; a frame empties the queue and leaves both flags clear.
\<close>

theorem one_reposition_per_axis_per_frame:
  assumes "raf s0 = []" and "\<not> scrollXTicking s0" and "\<not> scrollYTicking s0"
  shows "count_list (raf (run evs s0)) ScrollX \<le> 1
     \<and> count_list (raf (run evs s0)) ScrollY \<le> 1
     \<and> scrollXTicking (run evs s0) = (ScrollX \<in> set (raf (run evs s0)))
     \<and> scrollYTicking (run evs s0) = (ScrollY \<in> set (raf (run evs s0)))
     \<and> raf (onScroll (run evs s0)) = raf (run evs s0)
          @ (if scrollXTicking (run evs s0) then [] else [ScrollX])
          @ (if scrollYTicking (run evs s0) then [] else [ScrollY])
     \<and> scrollXTicking (onScroll (run evs s0)) \<and> scrollYTicking (onScroll (run evs s0))
     \<and> scrollX g (run evs s0) =
          (if isOverflowing (axis_x (run evs s0)) then positionScrollbar X g (run evs s0)
           else run evs s0)\<lparr>scrollXTicking := False\<rparr>
     \<and> scrollY g (run evs s0) =
          (if isOverflowing (axis_y (run evs s0)) then positionScrollbar Y g (run evs s0)
           else run evs s0)\<lparr>scrollYTicking := False\<rparr>
     \<and> raf (step (EvFrame g) (run evs s0)) = []
     \<and> \<not> scrollXTicking (step (EvFrame g) (run evs s0))
     \<and> \<not> scrollYTicking (step (EvFrame g) (run evs s0))"
proof -
  have "tickingInv s0" using assms by (simp add: tickingInv_def)
  then have inv: "tickingInv (run evs s0)" by (rule tickingInv_run)
  then have after: "\<not> scrollXTicking (step (EvFrame g) (run evs s0))"
    "\<not> scrollYTicking (step (EvFrame g) (run evs s0))"
    by (simp_all add: runCallbacks_flags tickingInv_def)
  show ?thesis
    using inv after
    by (simp add: onScroll_raf runCallbacks_flags scrollX_def scrollY_def tickingInv_def)
qed

theorem one_reposition_per_axis_per_frame_witness:
  "raf (run [EvScroll, EvScroll, EvObserver, EvScroll] mounted) = [ScrollX, ScrollY, Recalculate]
   \<and> count_list (raf (run [EvScroll, EvScroll, EvObserver, EvScroll] mounted)) ScrollX \<le> 1
   \<and> raf (run [EvScroll, EvFrame corner, EvScroll, EvScroll] mounted) = [ScrollX, ScrollY]
   \<and> scrollXTicking (run [EvScroll, EvFrame corner, EvScroll, EvScroll] mounted)
   \<and> raf (step (EvFrame corner) (run [EvScroll, EvFrame corner, EvScroll, EvScroll] mounted)) = []"
proof -
  have h: "raf mounted = []" "\<not> scrollXTicking mounted" "\<not> scrollYTicking mounted"
    by code_simp+
  have r: "raf (run [EvScroll, EvScroll, EvObserver, EvScroll] mounted)
      = [ScrollX, ScrollY, Recalculate]"
    "raf (run [EvScroll, EvFrame corner, EvScroll, EvScroll] mounted) = [ScrollX, ScrollY]"
    by code_simp+
  show ?thesis
    using one_reposition_per_axis_per_frame [OF h, of "[EvScroll, EvScroll, EvObserver, EvScroll]" corner]
      one_reposition_per_axis_per_frame [OF h, of "[EvScroll, EvFrame corner, EvScroll, EvScroll]" corner]
      r
    by simp
qed


end
